theory Spec2Isabelle
  imports Complex_Main "HOL-Library.Multiset" "HOL-Library.Product_Lexorder"
begin

section \<open>Values, errors and outcomes\<close>

text \<open>
  The study assistant is a TypeScript class \<open>Chat\<close> whose methods read and write five SQLite
  tables, keep a multi-step plan in four instance fields and talk to an inference service.
  Every \<^verbatim>\<open>throw\<close> of the source is an outcome \<open>Throw e\<close>; a method that writes returns its
  outcome together with the state as it is at the moment of the return or of the throw, so
  that a partial write would be visible.

  Strings are ASCII character lists. SQL \<^verbatim>\<open>INTEGER\<close> columns and the numbers written into them
  are integers. A \<^verbatim>\<open>TEXT\<close> column that holds \<^verbatim>\<open>JSON.stringify\<close> of a string array is modelled
  as the array itself (\<^verbatim>\<open>JSON.parse\<close> of that text gives the array back). Timestamps are
  natural numbers read from a clock that is passed to each call.
\<close>

datatype jsval =
    JUndefined
  | JNull
  | JBool bool
  | JNum rat
  | JStr string
  | JArr "jsval list"
  | JObj "(string \<times> jsval) list"

datatype error =
    ValidationError string
  | SqlConstraint
  | TypeError
  | AiError
  | SaveError

datatype 'a outcome = Ok 'a | Throw error

section \<open>JavaScript strings and values\<close>

text \<open>
  Characters are tested by their codes: white space is the space (32) and the control
  characters 9 to 13, a decimal digit has a code from 48 to 57.
\<close>

definition is_space :: "char \<Rightarrow> bool" where
  "is_space c \<longleftrightarrow> (of_char c :: nat) = 32 \<or> (9 \<le> (of_char c :: nat) \<and> (of_char c :: nat) \<le> 13)"

definition is_digit :: "char \<Rightarrow> bool" where
  "is_digit c \<longleftrightarrow> 48 \<le> (of_char c :: nat) \<and> (of_char c :: nat) \<le> 57"

definition digit_val :: "char \<Rightarrow> nat" where
  "digit_val c = of_char c - 48"

definition digits_val :: "string \<Rightarrow> nat" where
  "digits_val ds = foldl (\<lambda>a c. 10 * a + digit_val c) 0 ds"

definition trim :: "string \<Rightarrow> string" where
  "trim s = rev (dropWhile is_space (rev (dropWhile is_space s)))"

definition to_lower :: "char \<Rightarrow> char" where
  "to_lower c = (if c \<in> set ''ABCDEFGHIJKLMNOPQRSTUVWXYZ'' then char_of (of_char c + (32::nat)) else c)"

definition starts_with :: "string \<Rightarrow> string \<Rightarrow> bool" where
  "starts_with p s \<longleftrightarrow> take (length p) s = p"

text \<open>\<^verbatim>\<open>s.split(c)\<close> for a one-character separator.\<close>

fun js_split :: "char \<Rightarrow> string \<Rightarrow> string list" where
  "js_split c [] = [[]]"
| "js_split c (x # xs) =
     (if x = c then [] # js_split c xs
      else (case js_split c xs of y # ys \<Rightarrow> (x # y) # ys | [] \<Rightarrow> [[x]]))"

text \<open>
  \<^verbatim>\<open>parseInt(s, 10)\<close>: leading white space is skipped, a sign is read, then the longest run
  of decimal digits; without a digit the result is \<^verbatim>\<open>NaN\<close>, here \<open>None\<close>.
\<close>

definition parseInt :: "string \<Rightarrow> int option" where
  "parseInt s =
     (let t = dropWhile is_space s;
          neg = (t \<noteq> [] \<and> hd t = CHR ''-'');
          u = (if t \<noteq> [] \<and> (hd t = CHR ''-'' \<or> hd t = CHR ''+'') then tl t else t);
          ds = takeWhile is_digit u
      in if ds = [] then None
         else Some (if neg then - int (digits_val ds) else int (digits_val ds)))"

text \<open>The decimal numeral of a natural number, as a template literal prints it.\<close>

fun show_nat :: "nat \<Rightarrow> string" where
  "show_nat n =
     (if n < 10 then [char_of (48 + n)] else show_nat (n div 10) @ [char_of (48 + n mod 10)])"

declare show_nat.simps [simp del]

text \<open>
  A regular expression \<^verbatim>\<open>/\[[\s\S]*?\]/\<close> or \<^verbatim>\<open>/\{[\s\S]*?\}/\<close> matches from the first opening
  character to the first closing character after it.
\<close>

definition first_delimited :: "char \<Rightarrow> char \<Rightarrow> string \<Rightarrow> string option" where
  "first_delimited l r text =
     (case dropWhile (\<lambda>c. c \<noteq> l) text of
        [] \<Rightarrow> None
      | _ # rest \<Rightarrow>
          (case dropWhile (\<lambda>c. c \<noteq> r) rest of
             [] \<Rightarrow> None
           | _ # _ \<Rightarrow> Some (l # takeWhile (\<lambda>c. c \<noteq> r) rest @ [r])))"

text \<open>Truthiness, as \<^verbatim>\<open>!step\<close> tests it.\<close>

fun truthy :: "jsval \<Rightarrow> bool" where
  "truthy JUndefined = False"
| "truthy JNull = False"
| "truthy (JBool b) = b"
| "truthy (JNum n) = (n \<noteq> 0)"
| "truthy (JStr s) = (s \<noteq> [])"
| "truthy (JArr _) = True"
| "truthy (JObj _) = True"

text \<open>\<^verbatim>\<open>r.key\<close> on a value that is not \<^verbatim>\<open>null\<close> or \<^verbatim>\<open>undefined\<close>.\<close>

definition get_prop :: "jsval \<Rightarrow> string \<Rightarrow> jsval" where
  "get_prop v key =
     (case v of
        JObj kvs \<Rightarrow> (case map_of kvs key of Some x \<Rightarrow> x | None \<Rightarrow> JUndefined)
      | _ \<Rightarrow> JUndefined)"

text \<open>\<^verbatim>\<open>result && typeof result === "object"\<close>\<close>

fun is_object :: "jsval \<Rightarrow> bool" where
  "is_object (JArr _) = True"
| "is_object (JObj _) = True"
| "is_object _ = False"

section \<open>Tables\<close>

record profile_row =
  name :: "string option"
  major :: "string option"
  year :: "string option"
  preferred_learning_methods :: "string list option"

record prefs_row =
  goal :: "string option"
  learn_topic :: "string option"
  learn_concept :: "string option"
  exam_name :: "string option"
  exam_depth :: "string option"
  exam_time_left :: "string option"
  quiz_topic :: "string option"
  quiz_num_questions :: "int option"
  quiz_type :: "string option"
  quiz_hints_allowed :: "bool option"
  onboarding_complete :: bool

record knowledge_row =
  k_id :: nat
  k_subject :: string
  k_topic :: string
  mastery_level :: int
  confidence :: int
  times_studied :: int
  times_quizzed :: int
  last_studied :: "nat option"
  last_quizzed :: "nat option"
  weak_areas :: "string list option"
  k_notes :: "string option"

record quiz_row =
  q_id :: nat
  q_subject :: string
  q_topic :: "string option"
  q_quiz_type :: string
  score :: int
  total_questions :: int
  correct_answers :: int
  missed_concepts :: "string list option"
  time_spent_seconds :: "int option"
  hints_used :: int
  quiz_date :: nat

record session_row =
  s_id :: nat
  session_type :: string
  s_subject :: "string option"
  s_topic :: "string option"
  duration_minutes :: "int option"
  summary :: "string option"
  started_at :: nat
  ended_at :: "nat option"

text \<open>
  The database of one Durable Object. Tables with \<^verbatim>\<open>AUTOINCREMENT\<close> keys keep the largest key
  ever handed out (\<^verbatim>\<open>sqlite_sequence\<close>), which a \<^verbatim>\<open>DELETE\<close> does not reset. Rows are listed in
  insertion order.
\<close>

record db =
  user_profile :: "profile_row option"
  session_preferences :: "prefs_row option"
  knowledge :: "knowledge_row list"
  knowledge_seq :: nat
  quiz_history :: "quiz_row list"
  quiz_seq :: nat
  study_sessions :: "session_row list"
  session_seq :: nat

definition empty_db :: db where
  "empty_db = \<lparr>user_profile = None, session_preferences = None, knowledge = [],
     knowledge_seq = 0, quiz_history = [], quiz_seq = 0, study_sessions = [], session_seq = 0\<rparr>"

section \<open>Enumerations (types.ts)\<close>

definition Goal_values :: "string list" where
  "Goal_values = [''learn'', ''exam'', ''quiz'']"

definition ExamDepth_values :: "string list" where
  "ExamDepth_values = [''overview'', ''moderate'', ''deep'']"

definition QuizType_values :: "string list" where
  "QuizType_values = [''multiple_choice'', ''free_response'', ''mixed'']"

definition SessionType_values :: "string list" where
  "SessionType_values = [''learn'', ''review'', ''quiz'', ''exam_prep'']"

definition ResetType_values :: "string list" where
  "ResetType_values = [''all'', ''knowledge'', ''quizzes'', ''sessions'']"

section \<open>Session preferences\<close>

record prefs_data =
  d_goal :: "string option"
  learnTopic :: "string option"
  learnConcept :: "string option"
  examName :: "string option"
  examDepth :: "string option"
  examTimeLeft :: "string option"
  quizTopic :: "string option"
  quizNumQuestions :: "int option"
  d_quizType :: "string option"
  quizHintsAllowed :: "bool option"
  onboardingComplete :: "bool option"

text \<open>
  An optional field of the argument object is \<open>None\<close> when it is \<^verbatim>\<open>undefined\<close>. The three
  enumerated fields are checked first, in the order goal, exam depth, quiz type; only then
  is the table read and written. After the checks every value satisfies the column's
  \<^verbatim>\<open>CHECK\<close> constraint, so no statement below can fail. \<open>js_join\<close> is \<^verbatim>\<open>Array.prototype.join\<close>
  on strings.
\<close>

definition js_join :: "string \<Rightarrow> string list \<Rightarrow> string" where
  "js_join sep xs = (case xs of [] \<Rightarrow> [] | x # r \<Rightarrow> foldl (\<lambda>a y. a @ sep @ y) x r)"

definition invalid_msg :: "string \<Rightarrow> string \<Rightarrow> string list \<Rightarrow> string" where
  "invalid_msg field v valid =
     ''Invalid '' @ field @ '': '' @ v @ ''. Must be one of: '' @ js_join '', '' valid"

definition enum_error :: "string \<Rightarrow> string list \<Rightarrow> string option \<Rightarrow> error option" where
  "enum_error field valid v =
     (case v of
        None \<Rightarrow> None
      | Some x \<Rightarrow> if x \<in> set valid then None else Some (ValidationError (invalid_msg field x valid)))"

definition insert_prefs :: "prefs_data \<Rightarrow> prefs_row" where
  "insert_prefs d = \<lparr>goal = d_goal d, learn_topic = learnTopic d, learn_concept = learnConcept d,
     exam_name = examName d, exam_depth = examDepth d, exam_time_left = examTimeLeft d,
     quiz_topic = quizTopic d, quiz_num_questions = quizNumQuestions d, quiz_type = d_quizType d,
     quiz_hints_allowed = quizHintsAllowed d,
     onboarding_complete = (case onboardingComplete d of None \<Rightarrow> False | Some b \<Rightarrow> b)\<rparr>"

definition set_if :: "'a option \<Rightarrow> ('a \<Rightarrow> 'r \<Rightarrow> 'r) \<Rightarrow> 'r \<Rightarrow> 'r" where
  "set_if v upd r = (case v of None \<Rightarrow> r | Some x \<Rightarrow> upd x r)"

definition update_prefs :: "prefs_data \<Rightarrow> prefs_row \<Rightarrow> prefs_row" where
  "update_prefs d =
     set_if (onboardingComplete d) (\<lambda>x r. r\<lparr>onboarding_complete := x\<rparr>) \<circ>
     set_if (quizHintsAllowed d) (\<lambda>x r. r\<lparr>quiz_hints_allowed := Some x\<rparr>) \<circ>
     set_if (d_quizType d) (\<lambda>x r. r\<lparr>quiz_type := Some x\<rparr>) \<circ>
     set_if (quizNumQuestions d) (\<lambda>x r. r\<lparr>quiz_num_questions := Some x\<rparr>) \<circ>
     set_if (quizTopic d) (\<lambda>x r. r\<lparr>quiz_topic := Some x\<rparr>) \<circ>
     set_if (examTimeLeft d) (\<lambda>x r. r\<lparr>exam_time_left := Some x\<rparr>) \<circ>
     set_if (examDepth d) (\<lambda>x r. r\<lparr>exam_depth := Some x\<rparr>) \<circ>
     set_if (examName d) (\<lambda>x r. r\<lparr>exam_name := Some x\<rparr>) \<circ>
     set_if (learnConcept d) (\<lambda>x r. r\<lparr>learn_concept := Some x\<rparr>) \<circ>
     set_if (learnTopic d) (\<lambda>x r. r\<lparr>learn_topic := Some x\<rparr>) \<circ>
     set_if (d_goal d) (\<lambda>x r. r\<lparr>goal := Some x\<rparr>)"

definition updateSessionPreferences :: "prefs_data \<Rightarrow> db \<Rightarrow> unit outcome \<times> db" where
  "updateSessionPreferences d s =
     (case enum_error ''goal'' Goal_values (d_goal d) of
        Some err \<Rightarrow> (Throw err, s)
      | None \<Rightarrow>
     (case enum_error ''examDepth'' ExamDepth_values (examDepth d) of
        Some err \<Rightarrow> (Throw err, s)
      | None \<Rightarrow>
     (case enum_error ''quizType'' QuizType_values (d_quizType d) of
        Some err \<Rightarrow> (Throw err, s)
      | None \<Rightarrow>
     (case session_preferences s of
        None \<Rightarrow> (Ok (), s\<lparr>session_preferences := Some (insert_prefs d)\<rparr>)
      | Some row \<Rightarrow> (Ok (), s\<lparr>session_preferences := Some (update_prefs d row)\<rparr>)))))"

section \<open>Knowledge\<close>

definition getTopicMastery :: "db \<Rightarrow> string \<Rightarrow> string \<Rightarrow> knowledge_row option" where
  "getTopicMastery s subj tpc =
     List.find (\<lambda>r. k_subject r = subj \<and> k_topic r = tpc) (knowledge s)"

record knowledge_data =
  d_subject :: string
  d_topic :: string
  masteryLevel :: "int option"
  d_confidence :: "int option"
  timesStudied :: "int option"
  timesQuizzed :: "int option"
  lastStudied :: bool
  lastQuizzed :: bool
  weakAreas :: "string list option"
  d_notes :: "string option"

definition knowledge_data :: "string \<Rightarrow> string \<Rightarrow> knowledge_data" where
  "knowledge_data subj tpc = \<lparr>d_subject = subj, d_topic = tpc, masteryLevel = None,
     d_confidence = None, timesStudied = None, timesQuizzed = None, lastStudied = False,
     lastQuizzed = False, weakAreas = None, d_notes = None\<rparr>"

text \<open>The \<^verbatim>\<open>CHECK(x >= 0 AND x <= 100)\<close> constraint of the mastery, confidence and score columns.\<close>

definition check_percent :: "int \<Rightarrow> bool" where
  "check_percent v \<longleftrightarrow> 0 \<le> v \<and> v \<le> 100"

definition or_else :: "'a option \<Rightarrow> 'a \<Rightarrow> 'a" where
  "or_else v dflt = (case v of None \<Rightarrow> dflt | Some x \<Rightarrow> x)"

text \<open>\<^verbatim>\<open>UPDATE knowledge SET ... WHERE subject = ? AND topic = ?\<close>\<close>

definition update_where :: "string \<Rightarrow> string \<Rightarrow> (knowledge_row \<Rightarrow> knowledge_row) \<Rightarrow> db \<Rightarrow> db" where
  "update_where subj tpc f s =
     s\<lparr>knowledge := map (\<lambda>r. if k_subject r = subj \<and> k_topic r = tpc then f r else r) (knowledge s)\<rparr>"

definition update_rest :: "nat \<Rightarrow> knowledge_data \<Rightarrow> knowledge_row \<Rightarrow> knowledge_row" where
  "update_rest now d =
     set_if (d_notes d) (\<lambda>x r. r\<lparr>k_notes := Some x\<rparr>) \<circ>
     set_if (weakAreas d) (\<lambda>x r. r\<lparr>weak_areas := Some x\<rparr>) \<circ>
     (\<lambda>r. if lastQuizzed d then r\<lparr>last_quizzed := Some now\<rparr> else r) \<circ>
     (\<lambda>r. if lastStudied d then r\<lparr>last_studied := Some now\<rparr> else r) \<circ>
     set_if (timesQuizzed d) (\<lambda>x r. r\<lparr>times_quizzed := x\<rparr>) \<circ>
     set_if (timesStudied d) (\<lambda>x r. r\<lparr>times_studied := x\<rparr>)"

text \<open>
  The upsert. A new row is inserted by one statement, which fails as a whole when a
  \<^verbatim>\<open>CHECK\<close> is violated. An existing row is changed by one \<^verbatim>\<open>UPDATE\<close> per supplied field, in
  the order of the source: a failing statement leaves the earlier ones in place.
\<close>

definition updateKnowledge :: "nat \<Rightarrow> knowledge_data \<Rightarrow> db \<Rightarrow> unit outcome \<times> db" where
  "updateKnowledge now d s =
     (case getTopicMastery s (d_subject d) (d_topic d) of
        None \<Rightarrow>
          (let m = or_else (masteryLevel d) 0; c = or_else (d_confidence d) 0 in
           if check_percent m \<and> check_percent c
           then (Ok (), s\<lparr>knowledge := knowledge s @
                   [\<lparr>k_id = Suc (knowledge_seq s), k_subject = d_subject d, k_topic = d_topic d,
                     mastery_level = m, confidence = c,
                     times_studied = or_else (timesStudied d) 0,
                     times_quizzed = or_else (timesQuizzed d) 0,
                     last_studied = (if lastStudied d then Some now else None),
                     last_quizzed = (if lastQuizzed d then Some now else None),
                     weak_areas = weakAreas d, k_notes = d_notes d\<rparr>],
                   knowledge_seq := Suc (knowledge_seq s)\<rparr>)
           else (Throw SqlConstraint, s))
      | Some _ \<Rightarrow>
          (if \<not> check_percent (or_else (masteryLevel d) 0) then (Throw SqlConstraint, s)
           else
             let s1 = update_where (d_subject d) (d_topic d)
                        (set_if (masteryLevel d) (\<lambda>x r. r\<lparr>mastery_level := x\<rparr>)) s in
             if \<not> check_percent (or_else (d_confidence d) 0) then (Throw SqlConstraint, s1)
             else (Ok (), update_where (d_subject d) (d_topic d)
                     (update_rest now d \<circ> set_if (d_confidence d) (\<lambda>x r. r\<lparr>confidence := x\<rparr>)) s1)))"

text \<open>
  \<^verbatim>\<open>SELECT * FROM knowledge WHERE mastery_level < 60 OR confidence < 50
  ORDER BY mastery_level ASC, confidence ASC LIMIT ?\<close>. The sort is the stable insertion sort
  of the list library on the pair of the two columns; SQLite reads a negative \<^verbatim>\<open>LIMIT\<close> as
  no limit. The parameter defaults to 10.
\<close>

definition is_weak :: "knowledge_row \<Rightarrow> bool" where
  "is_weak r \<longleftrightarrow> mastery_level r < 60 \<or> confidence r < 50"

definition weak_key :: "knowledge_row \<Rightarrow> int \<times> int" where
  "weak_key r = (mastery_level r, confidence r)"

definition sql_limit :: "int \<Rightarrow> 'a list \<Rightarrow> 'a list" where
  "sql_limit n xs = (if n < 0 then xs else take (nat n) xs)"

definition getWeakAreas :: "int option \<Rightarrow> db \<Rightarrow> knowledge_row list" where
  "getWeakAreas limit s =
     sql_limit (or_else limit 10) (sort_key weak_key (filter is_weak (knowledge s)))"

section \<open>Binary64 arithmetic of the mastery rule\<close>

text \<open>
  The mastery rule is written with JavaScript numbers, which are IEEE 754 binary64 values.
  A finite binary64 value is a rational; \<open>binary64 x\<close> is the value nearest to \<open>x\<close> with a
  53-bit significand, ties to the even significand. The literals \<^verbatim>\<open>0.7\<close> and \<^verbatim>\<open>0.3\<close>, each
  product and the sum are rounded this way. Overflow and subnormal values are not modelled:
  the operands are percentages. \<^verbatim>\<open>Math.round\<close> rounds to the nearest integer, a tie upwards.
\<close>

function bit_length :: "int \<Rightarrow> int" where
  "bit_length n = (if n \<le> 0 then 0 else 1 + bit_length (n div 2))"
  by pat_completeness auto
termination
  by (relation "measure nat") auto

declare bit_length.simps [simp del]

text \<open>
  For positive \<open>x = p / q\<close> the integer part of the binary logarithm is the difference of
  the bit lengths of \<open>p\<close> and \<open>q\<close> or one less; \<open>round_to u x\<close> rounds \<open>x\<close> to a multiple of the
  unit in the last place \<open>u\<close>.
\<close>

definition log2_near :: "rat \<Rightarrow> int \<Rightarrow> int" where
  "log2_near x d = (if 2 powi d \<le> x then d else d - 1)"

definition floor_log2 :: "rat \<Rightarrow> int" where
  "floor_log2 x = (case quotient_of x of (p, q) \<Rightarrow> log2_near x (bit_length p - bit_length q))"

definition tie_even :: "int \<Rightarrow> rat \<Rightarrow> int" where
  "tie_even n r =
     (if r < 1 / 2 then n else if 1 / 2 < r then n + 1 else if even n then n else n + 1)"

definition round_even :: "rat \<Rightarrow> int" where
  "round_even q = tie_even \<lfloor>q\<rfloor> (q - of_int \<lfloor>q\<rfloor>)"

definition round_to :: "rat \<Rightarrow> rat \<Rightarrow> rat" where
  "round_to u x = sgn x * of_int (round_even (\<bar>x\<bar> / u)) * u"

definition binary64 :: "rat \<Rightarrow> rat" where
  "binary64 x = (if x = 0 then 0 else round_to (2 powi (floor_log2 \<bar>x\<bar> - 52)) x)"

definition Math_round :: "rat \<Rightarrow> int" where
  "Math_round x = \<lfloor>x + 1 / 2\<rfloor>"

text \<open>\<^verbatim>\<open>Math.round((existing.mastery_level * 0.7) + (data.score * 0.3))\<close>\<close>

definition newMastery :: "int \<Rightarrow> int \<Rightarrow> int" where
  "newMastery m sc =
     Math_round (binary64 (binary64 (of_int m * binary64 (7 / 10))
                           + binary64 (of_int sc * binary64 (3 / 10))))"

section \<open>Quiz ledger\<close>

record QuizResult =
  qr_subject :: string
  qr_topic :: "string option"
  quizType :: string
  qr_score :: int
  totalQuestions :: int
  correctAnswers :: int
  missedConcepts :: "string list"
  timeSpentSeconds :: "int option"
  hintsUsed :: "int option"

text \<open>
  \<^verbatim>\<open>[...new Set(xs)]\<close>: a \<^verbatim>\<open>Set\<close> keeps its elements in insertion order and ignores an
  element it already has.
\<close>

definition set_add :: "'a list \<Rightarrow> 'a \<Rightarrow> 'a list" where
  "set_add acc x = (if x \<in> set acc then acc else acc @ [x])"

definition spread_set :: "'a list \<Rightarrow> 'a list" where
  "spread_set xs = foldl set_add [] xs"

definition ledger_row :: "nat \<Rightarrow> nat \<Rightarrow> QuizResult \<Rightarrow> quiz_row" where
  "ledger_row i now d = \<lparr>q_id = i, q_subject = qr_subject d, q_topic = qr_topic d,
     q_quiz_type = quizType d, score = qr_score d, total_questions = totalQuestions d,
     correct_answers = correctAnswers d,
     missed_concepts = (if length (missedConcepts d) > 0 then Some (missedConcepts d) else None),
     time_spent_seconds = timeSpentSeconds d, hints_used = or_else (hintsUsed d) 0,
     quiz_date = now\<rparr>"

definition returning :: "'b \<Rightarrow> 'a outcome \<times> db \<Rightarrow> 'b outcome \<times> db" where
  "returning v r = (case r of (Ok _, s) \<Rightarrow> (Ok v, s) | (Throw e, s) \<Rightarrow> (Throw e, s))"

text \<open>
  \<open>recordQuiz\<close>: the quiz type is checked, the ledger row is inserted (the \<^verbatim>\<open>CHECK\<close> on the
  score can reject it), and only when \<^verbatim>\<open>data.topic\<close> is truthy (present and not the empty
  string) is the knowledge entry of (subject, topic) created or updated.
\<close>

definition recordQuiz :: "nat \<Rightarrow> QuizResult \<Rightarrow> db \<Rightarrow> nat outcome \<times> db" where
  "recordQuiz now d s =
     (if quizType d \<notin> set QuizType_values
        then (Throw (ValidationError (invalid_msg ''quizType'' (quizType d) QuizType_values)), s)
      else if \<not> check_percent (qr_score d) then (Throw SqlConstraint, s)
      else
        let insertedId = Suc (quiz_seq s);
            s1 = s\<lparr>quiz_history := quiz_history s @ [ledger_row insertedId now d],
                   quiz_seq := insertedId\<rparr>
        in case qr_topic d of
             None \<Rightarrow> (Ok insertedId, s1)
           | Some t \<Rightarrow>
               if t = [] then (Ok insertedId, s1)
               else (case getTopicMastery s1 (qr_subject d) t of
                  Some existing \<Rightarrow>
                    (let newTimesQuizzed = times_quizzed existing + 1;
                         nm = newMastery (mastery_level existing) (qr_score d);
                         existingWeakAreas = or_else (weak_areas existing) [];
                         mergedWeakAreas = spread_set (existingWeakAreas @ missedConcepts d)
                     in returning insertedId
                          (updateKnowledge now
                             ((knowledge_data (qr_subject d) t)
                                \<lparr>masteryLevel := Some (min 100 (max 0 nm)),
                                 timesQuizzed := Some newTimesQuizzed,
                                 lastQuizzed := True,
                                 weakAreas := Some mergedWeakAreas\<rparr>) s1))
                | None \<Rightarrow>
                    returning insertedId
                      (updateKnowledge now
                         ((knowledge_data (qr_subject d) t)
                            \<lparr>masteryLevel := Some (qr_score d),
                             timesQuizzed := Some 1,
                             lastQuizzed := True,
                             weakAreas := Some (missedConcepts d)\<rparr>) s1)))"

section \<open>Quiz statistics\<close>

record QuizStats =
  totalQuizzes :: nat
  averageScore :: int
  st_totalQuestions :: int
  totalCorrect :: int
  bestScore :: int
  worstScore :: int
  recentScores :: "int list"
  mostMissedConcepts :: "string list"

text \<open>
  \<^verbatim>\<open>if (subject)\<close> selects the filtered queries only for a non-empty subject. \<^verbatim>\<open>AVG\<close> is the
  exact quotient (binary64 agrees with it after \<^verbatim>\<open>Math.round\<close> as long as the sum of the
  scores is below \<open>2 ^ 50\<close>); each aggregate of an empty selection is replaced by 0 through
  \<^verbatim>\<open>COALESCE\<close>.

  \<^verbatim>\<open>ORDER BY quiz_date DESC\<close> is the stable sort on the negated date: rows with the same
  \<^verbatim>\<open>quiz_date\<close> come out in the order of the table scan, which is the order of their
  rowids, the earlier row first. \<^verbatim>\<open>CURRENT_TIMESTAMP\<close> counts whole seconds, so rows
  recorded within one second do have the same date.
\<close>

definition subject_filter :: "string option \<Rightarrow> quiz_row list \<Rightarrow> quiz_row list" where
  "subject_filter subject rows =
     (case subject of
        None \<Rightarrow> rows
      | Some sj \<Rightarrow> if sj = [] then rows else filter (\<lambda>r. q_subject r = sj) rows)"

definition order_by_date_desc :: "quiz_row list \<Rightarrow> quiz_row list" where
  "order_by_date_desc rows = sort_key (\<lambda>r. - int (quiz_date r)) rows"

definition sql_avg :: "int list \<Rightarrow> rat" where
  "sql_avg xs = (if xs = [] then 0 else of_int (sum_list xs) / of_nat (length xs))"

definition sql_max :: "int list \<Rightarrow> int" where
  "sql_max xs = (case xs of [] \<Rightarrow> 0 | x # r \<Rightarrow> fold max r x)"

definition sql_min :: "int list \<Rightarrow> int" where
  "sql_min xs = (case xs of [] \<Rightarrow> 0 | x # r \<Rightarrow> fold min r x)"

text \<open>
  The counting object \<^verbatim>\<open>conceptCounts\<close> starts as \<^verbatim>\<open>{}\<close>. It is kept as the list of its own
  properties in the order of their creation; a value is a number or a string.

  \<^verbatim>\<open>conceptCounts[concept] = (conceptCounts[concept] || 0) + 1\<close> reads the property first.
  An own property holds a count \<open>n \<ge> 1\<close> or a string, both truthy: a count becomes \<open>n + 1\<close>,
  a string gets \<^verbatim>\<open>"1"\<close> appended. Without an own property the read goes to
  \<^verbatim>\<open>Object.prototype\<close>: for the twelve names found there it yields a function (for
  \<^verbatim>\<open>__proto__\<close> the prototype object), which is truthy, so that \<^verbatim>\<open>+ 1\<close> makes a string of it;
  for any other name it yields \<^verbatim>\<open>undefined\<close> and the new value is 1. The assignment then
  creates the own property, except for \<^verbatim>\<open>__proto__\<close>, whose setter ignores a value that is
  not an object. The strings that arise are the source text of a function followed by
  \<^verbatim>\<open>1\<close>s; none of them is a numeral, and only this is kept of them (\<open>Text\<close>).
\<close>

datatype tally = Count nat | Text

definition Object_prototype_names :: "string list" where
  "Object_prototype_names = [''constructor'', ''toString'', ''valueOf'', ''toLocaleString'',
     ''hasOwnProperty'', ''isPrototypeOf'', ''propertyIsEnumerable'', ''__proto__'',
     ''__defineGetter__'', ''__defineSetter__'', ''__lookupGetter__'', ''__lookupSetter__'']"

fun increment :: "tally \<Rightarrow> tally" where
  "increment (Count n) = Count (n + 1)"
| "increment Text = Text"

fun bump :: "string \<Rightarrow> (string \<times> tally) list \<Rightarrow> (string \<times> tally) list" where
  "bump c [] =
     (if c = ''__proto__'' then []
      else if c \<in> set Object_prototype_names then [(c, Text)]
      else [(c, Count 1)])"
| "bump c ((k, v) # kvs) = (if k = c then (k, increment v) # kvs else (k, v) # bump c kvs)"

definition count_row :: "quiz_row \<Rightarrow> (string \<times> tally) list \<Rightarrow> (string \<times> tally) list" where
  "count_row row acc = (case missed_concepts row of None \<Rightarrow> acc | Some cs \<Rightarrow> fold bump cs acc)"

definition conceptCounts :: "quiz_row list \<Rightarrow> (string \<times> tally) list" where
  "conceptCounts missedConceptsRows = fold count_row missedConceptsRows []"

text \<open>
  \<^verbatim>\<open>Object.entries\<close> lists the own properties whose key is an array index (a decimal numeral
  without leading zero, at most 4294967294) first, in ascending numeric order, and then the
  other keys in the order of their creation.
\<close>

definition array_index :: "string \<Rightarrow> bool" where
  "array_index c \<longleftrightarrow>
     c \<noteq> [] \<and> list_all is_digit c \<and> (c = ''0'' \<or> hd c \<noteq> CHR ''0'')
       \<and> int (digits_val c) \<le> 4294967294"

definition Object_entries :: "(string \<times> 'v) list \<Rightarrow> (string \<times> 'v) list" where
  "Object_entries obj =
     sort_key (\<lambda>e. digits_val (fst e)) (filter (\<lambda>e. array_index (fst e)) obj)
       @ filter (\<lambda>e. \<not> array_index (fst e)) obj"

text \<open>
  \<^verbatim>\<open>.sort((a, b) => b[1] - a[1])\<close>. When every value is a count the comparison is
  consistent and the sort, which is stable, orders the entries by descending count. When
  a value is a string the difference is \<^verbatim>\<open>NaN\<close>, the comparison is no longer consistent,
  and the language leaves the resulting order to the implementation: it is the parameter
  \<open>sort_impl\<close>.
\<close>

fun counts_only :: "(string \<times> tally) list \<Rightarrow> (string \<times> nat) list option" where
  "counts_only [] = Some []"
| "counts_only ((k, Count n) # es) = map_option ((#) (k, n)) (counts_only es)"
| "counts_only ((k, Text) # es) = None"

definition sortedConcepts ::
    "((string \<times> tally) list \<Rightarrow> (string \<times> tally) list) \<Rightarrow> (string \<times> tally) list \<Rightarrow> string list" where
  "sortedConcepts sort_impl counts =
     (case counts_only (Object_entries counts) of
        Some es \<Rightarrow> map fst (take 5 (sort_key (\<lambda>e. - int (snd e)) es))
      | None \<Rightarrow> map fst (take 5 (sort_impl (Object_entries counts))))"

definition getQuizStats ::
    "((string \<times> tally) list \<Rightarrow> (string \<times> tally) list) \<Rightarrow> string option \<Rightarrow> db \<Rightarrow> QuizStats" where
  "getQuizStats sort_impl subject s =
     (let rows = subject_filter subject (quiz_history s);
          missedConceptsRows =
            take 10 (order_by_date_desc (filter (\<lambda>r. missed_concepts r \<noteq> None) rows))
      in \<lparr>totalQuizzes = length rows,
          averageScore = Math_round (sql_avg (map score rows)),
          st_totalQuestions = sum_list (map total_questions rows),
          totalCorrect = sum_list (map correct_answers rows),
          bestScore = sql_max (map score rows),
          worstScore = sql_min (map score rows),
          recentScores = map score (take 5 (order_by_date_desc rows)),
          mostMissedConcepts = sortedConcepts sort_impl (conceptCounts missedConceptsRows)\<rparr>)"

section \<open>Study sessions and reset\<close>

definition startSession ::
    "nat \<Rightarrow> string \<Rightarrow> string option \<Rightarrow> string option \<Rightarrow> db \<Rightarrow> nat outcome \<times> db" where
  "startSession now sessionType subject topic s =
     (if sessionType \<notin> set SessionType_values
        then (Throw (ValidationError (invalid_msg ''sessionType'' sessionType SessionType_values)), s)
      else
        let i = Suc (session_seq s) in
        (Ok i, s\<lparr>study_sessions := study_sessions s @
                   [\<lparr>s_id = i, session_type = sessionType, s_subject = subject, s_topic = topic,
                     duration_minutes = None, summary = None, started_at = now,
                     ended_at = None\<rparr>],
                 session_seq := i\<rparr>))"

definition delete_if :: "bool \<Rightarrow> (db \<Rightarrow> db) \<Rightarrow> db \<Rightarrow> db" where
  "delete_if c f s = (if c then f s else s)"

definition resetProgress :: "string \<Rightarrow> db \<Rightarrow> unit outcome \<times> db" where
  "resetProgress resetType s =
     (if resetType \<notin> set ResetType_values
        then (Throw (ValidationError (invalid_msg ''resetType'' resetType ResetType_values)), s)
      else (Ok (),
        (delete_if (resetType = ''all'')
           (\<lambda>s. s\<lparr>user_profile := None, session_preferences := None\<rparr>) \<circ>
         delete_if (resetType = ''all'' \<or> resetType = ''sessions'') (\<lambda>s. s\<lparr>study_sessions := []\<rparr>) \<circ>
         delete_if (resetType = ''all'' \<or> resetType = ''quizzes'') (\<lambda>s. s\<lparr>quiz_history := []\<rparr>) \<circ>
         delete_if (resetType = ''all'' \<or> resetType = ''knowledge'') (\<lambda>s. s\<lparr>knowledge := []\<rparr>)) s))"

section \<open>Inference service\<close>

text \<open>
  The service is called at three places of the plan flow. A request is kept as the
  arguments of its prompt template; the wording of the prompts is not modelled. A call
  returns an arbitrary value or throws. \<^verbatim>\<open>JSON.parse\<close> and \<^verbatim>\<open>JSON.stringify\<close> are
  parameters (\<open>None\<close> is a \<^verbatim>\<open>SyntaxError\<close>), as is the outcome of saving the chat messages.
\<close>

datatype ai_request =
    PlanRequest string
  | StepRequest nat nat string "jsval list" jsval
  | InferRequest string

datatype ai_result = AiThrow | AiReturn jsval

datatype tracking = TrackingAdded string string | TrackingExplainMore

datatype content =
    Acknowledgment nat "jsval list"
  | CombinedResult string tracking
  | ScheduledTaskNotice string

record chat_message =
  role :: string
  content :: content

record env =
  ai :: "ai_request \<Rightarrow> ai_result"
  JSON_parse :: "string \<Rightarrow> jsval option"
  JSON_stringify :: "jsval \<Rightarrow> string"
  save_ok :: "chat_message list \<Rightarrow> bool"
  clock :: nat

section \<open>Plan generator\<close>

definition parseStepsFromString :: "(string \<Rightarrow> jsval option) \<Rightarrow> string \<Rightarrow> string \<Rightarrow> jsval list" where
  "parseStepsFromString parse text fallbackPrompt =
     (case parse text of
        Some parsed \<Rightarrow> (case parsed of JArr xs \<Rightarrow> take 10 xs | _ \<Rightarrow> [JStr fallbackPrompt])
      | None \<Rightarrow>
          (case first_delimited CHR ''['' CHR '']'' text of
             Some m \<Rightarrow> (case parse m of Some (JArr xs) \<Rightarrow> take 10 xs | _ \<Rightarrow> [JStr fallbackPrompt])
           | None \<Rightarrow> [JStr fallbackPrompt]))"

text \<open>The part of \<open>generatePlan\<close> after the service has answered with \<open>result\<close>.\<close>

definition stepsFromResult :: "(string \<Rightarrow> jsval option) \<Rightarrow> string \<Rightarrow> jsval \<Rightarrow> jsval list" where
  "stepsFromResult parse prompt result =
     (if is_object result then
        (case get_prop result ''response'' of
           JArr xs \<Rightarrow> take 10 xs
         | JStr text \<Rightarrow> parseStepsFromString parse text prompt
         | _ \<Rightarrow>
             (case get_prop result ''result'' of
                JArr xs \<Rightarrow> take 10 xs
              | JStr text \<Rightarrow> parseStepsFromString parse text prompt
              | _ \<Rightarrow> [JStr prompt]))
      else (case result of
              JStr text \<Rightarrow> parseStepsFromString parse text prompt
            | _ \<Rightarrow> [JStr prompt]))"

definition generatePlan :: "env \<Rightarrow> string \<Rightarrow> jsval list outcome" where
  "generatePlan e prompt =
     (case ai e (PlanRequest prompt) of
        AiThrow \<Rightarrow> Throw AiError
      | AiReturn result \<Rightarrow> Ok (stepsFromResult (JSON_parse e) prompt result))"

section \<open>Plan state and step scheduler\<close>

text \<open>
  The state of one \<open>Chat\<close> object. The tables, the chat messages and the schedules handed to
  \<^verbatim>\<open>this.schedule\<close> are kept in the object's storage. The four plan fields are private
  instance fields with initialisers (\<^verbatim>\<open>planSteps = []\<close>, \<^verbatim>\<open>stepResults = []\<close>,
  \<^verbatim>\<open>originalPrompt = ""\<close>, \<^verbatim>\<open>isProcessingPlan = false\<close>): no method writes them to storage.
  A slot of \<open>stepResults\<close> that was never assigned is \<open>None\<close>.
\<close>

record chat =
  store :: db
  messages :: "chat_message list"
  schedules :: "(nat \<times> string \<times> string) list"
  planSteps :: "jsval list"
  stepResults :: "string option list"
  originalPrompt :: string
  isProcessingPlan :: bool

definition new_chat :: chat where
  "new_chat = \<lparr>store = empty_db, messages = [], schedules = [], planSteps = [],
     stepResults = [], originalPrompt = [], isProcessingPlan = False\<rparr>"

text \<open>
  When the object is constructed again after its process has stopped, storage is what it
  was and the instance fields are initialised anew.
\<close>

definition restart :: "chat \<Rightarrow> chat" where
  "restart s = s\<lparr>planSteps := [], stepResults := [], originalPrompt := [],
     isProcessingPlan := False\<rparr>"

definition saveMessages :: "env \<Rightarrow> chat_message list \<Rightarrow> chat \<Rightarrow> unit outcome \<times> chat" where
  "saveMessages e msgs s =
     (if save_ok e msgs then (Ok (), s\<lparr>messages := msgs\<rparr>) else (Throw SaveError, s))"

definition schedule :: "nat \<Rightarrow> string \<Rightarrow> string \<Rightarrow> chat \<Rightarrow> chat" where
  "schedule delay callback payload s = s\<lparr>schedules := schedules s @ [(delay, callback, payload)]\<rparr>"

text \<open>The extraction of the response text in \<open>processStep\<close>.\<close>

definition responseText :: "(jsval \<Rightarrow> string) \<Rightarrow> jsval \<Rightarrow> string" where
  "responseText stringify result =
     (case result of
        JStr s \<Rightarrow> s
      | _ \<Rightarrow>
         if is_object result then
           (case get_prop result ''response'' of
              JStr s \<Rightarrow> s
            | _ \<Rightarrow> (case get_prop result ''result'' of
                       JStr s \<Rightarrow> s
                     | _ \<Rightarrow> (case get_prop result ''text'' of
                                JStr s \<Rightarrow> s
                              | _ \<Rightarrow> stringify result)))
         else [])"

definition processStep :: "env \<Rightarrow> chat \<Rightarrow> jsval \<Rightarrow> nat \<Rightarrow> string outcome" where
  "processStep e s step stepIndex =
     (case ai e (StepRequest (stepIndex + 1) (length (planSteps s)) (originalPrompt s)
                   (if stepIndex > 0 then take stepIndex (planSteps s) else []) step) of
        AiThrow \<Rightarrow> Throw AiError
      | AiReturn result \<Rightarrow> Ok (responseText (JSON_stringify e) result))"

text \<open>
  \<open>extractTopicFromPrompt\<close> applies three replacements and \<^verbatim>\<open>trim\<close>. None of the regular
  expressions has the \<^verbatim>\<open>g\<close> flag, so each removes its leftmost match only; letters are
  compared without case.

  \<^item> \<^verbatim>\<open>/^(explain|what is|...)\s*/i\<close>: the first phrase of the alternation that the prompt
    starts with is removed together with the white space after it.
  \<^item> \<^verbatim>\<open>/\s*(work|works|...).*$/i\<close>: a match starts at a position from which white space and
    then one of the words follow, and \<^verbatim>\<open>.*$\<close> has to reach the end of the prompt, which it
    does when no line terminator follows the word; everything from the first such
    position on is removed.
  \<^item> \<^verbatim>\<open>/\s*\?+$/\<close>: the question marks at the end and the white space before them.
\<close>

definition lead_phrases :: "string list" where
  "lead_phrases = [''explain'', ''what is'', ''what are'', ''how does'', ''how do'',
     ''tell me about'', ''teach me'', ''describe'', ''define'', ''help me understand'']"

definition tail_phrases :: "string list" where
  "tail_phrases = [''work'', ''works'', ''in detail'', ''fully'', ''please'', ''for me'',
     ''to me'', ''step by step'']"

definition starts_with_i :: "string \<Rightarrow> string \<Rightarrow> bool" where
  "starts_with_i p s \<longleftrightarrow> map to_lower (take (length p) s) = p"

definition line_terminator :: "char \<Rightarrow> bool" where
  "line_terminator c \<longleftrightarrow> (of_char c :: nat) = 10 \<or> (of_char c :: nat) = 13"

definition strip_lead :: "string \<Rightarrow> string" where
  "strip_lead s =
     (case find (\<lambda>p. starts_with_i p s) lead_phrases of
        None \<Rightarrow> s
      | Some p \<Rightarrow> dropWhile is_space (drop (length p) s))"

definition tail_match :: "string \<Rightarrow> bool" where
  "tail_match s =
     (let t = dropWhile is_space s
      in list_ex (\<lambda>p. starts_with_i p t \<and> \<not> list_ex line_terminator (drop (length p) t))
           tail_phrases)"

fun strip_tail :: "string \<Rightarrow> string" where
  "strip_tail [] = []"
| "strip_tail (c # cs) = (if tail_match (c # cs) then [] else c # strip_tail cs)"

definition strip_question :: "string \<Rightarrow> string" where
  "strip_question s =
     (if s \<noteq> [] \<and> last s = CHR ''?''
      then rev (dropWhile is_space (dropWhile (\<lambda>c. c = CHR ''?'') (rev s)))
      else s)"

definition extractTopicFromPrompt :: "string \<Rightarrow> (string \<times> string) option" where
  "extractTopicFromPrompt prompt =
     (let topic = trim (strip_question (strip_tail (strip_lead prompt)))
      in if topic = [] \<or> length topic < 2 then None else Some (''General'', topic))"

text \<open>
  \<^verbatim>\<open>result?.response ?? result?.result ?? (typeof result === "string" ? result : "")\<close>
\<close>

fun nullish :: "jsval \<Rightarrow> bool" where
  "nullish JUndefined = True"
| "nullish JNull = True"
| "nullish _ = False"

definition raw_text :: "jsval \<Rightarrow> jsval" where
  "raw_text result =
     (if \<not> nullish (get_prop result ''response'') then get_prop result ''response''
      else if \<not> nullish (get_prop result ''result'') then get_prop result ''result''
      else (case result of JStr s \<Rightarrow> JStr s | _ \<Rightarrow> JStr []))"

text \<open>
  \<open>inferSubjectTopicFromAI\<close>: everything is inside one \<^verbatim>\<open>try\<close>, so a failed call, a reply
  that is not text, a reply without braces and unparsable JSON all give \<^verbatim>\<open>null\<close>.
\<close>

definition inferSubjectTopicFromAI :: "env \<Rightarrow> string \<Rightarrow> (string \<times> string) option" where
  "inferSubjectTopicFromAI e prompt =
     (case ai e (InferRequest (take 300 prompt)) of
        AiThrow \<Rightarrow> None
      | AiReturn result \<Rightarrow>
          (case raw_text result of
             JStr raw \<Rightarrow>
               (case first_delimited CHR ''{'' CHR ''}'' raw of
                  None \<Rightarrow> None
                | Some m \<Rightarrow>
                    (case JSON_parse e m of
                       None \<Rightarrow> None
                     | Some parsed \<Rightarrow>
                         (case (get_prop parsed ''subject'', get_prop parsed ''topic'') of
                            (JStr sj, JStr tp) \<Rightarrow> Some (trim sj, trim tp)
                          | _ \<Rightarrow> None)))
           | _ \<Rightarrow> None))"

text \<open>\<^verbatim>\<open>step.replace(/^Step \d+:\s*/i, "")\<close>\<close>

definition cleanStep :: "string \<Rightarrow> string" where
  "cleanStep step =
     (let r = drop 5 step; r2 = dropWhile is_digit r in
      if map to_lower (take 5 step) = ''step '' \<and> takeWhile is_digit r \<noteq> [] \<and> r2 \<noteq> []
         \<and> hd r2 = CHR '':''
      then dropWhile is_space (tl r2) else step)"

definition result_text :: "string option list \<Rightarrow> nat \<Rightarrow> string" where
  "result_text results i =
     (if i < length results then (case results ! i of Some r \<Rightarrow> r | None \<Rightarrow> ''undefined'')
      else ''undefined'')"

text \<open>
  The combined document. \<^verbatim>\<open>step.replace\<close> exists only on a string: the first step that is
  not one makes the \<^verbatim>\<open>map\<close> throw a \<^verbatim>\<open>TypeError\<close>, here \<open>None\<close>.
\<close>

fun sections :: "string option list \<Rightarrow> nat \<Rightarrow> jsval list \<Rightarrow> string list option" where
  "sections results i [] = Some []"
| "sections results i (JStr step # steps) =
     (case sections results (Suc i) steps of
        None \<Rightarrow> None
      | Some r \<Rightarrow> Some ((''### '' @ cleanStep step @ [CHR 0x0A] @ result_text results i) # r))"
| "sections results i (_ # steps) = None"

definition combined :: "chat \<Rightarrow> string option" where
  "combined s = map_option (js_join [CHR 0x0A, CHR 0x0A]) (sections (stepResults s) 0 (planSteps s))"

definition reset_state :: "chat \<Rightarrow> chat" where
  "reset_state s = s\<lparr>planSteps := [], stepResults := [], originalPrompt := [],
     isProcessingPlan := False\<rparr>"

definition save_and_reset :: "env \<Rightarrow> string \<Rightarrow> tracking \<Rightarrow> chat \<Rightarrow> unit outcome \<times> chat" where
  "save_and_reset e doc tr s =
     (case saveMessages e (messages s @ [\<lparr>role = ''assistant'', content = CombinedResult doc tr\<rparr>]) s of
        (Throw err, s') \<Rightarrow> (Throw err, s')
      | (Ok _, s') \<Rightarrow> (Ok (), reset_state s'))"

text \<open>
  \<open>outputCombinedResult\<close>: build the document, infer the topic (service first, heuristic
  second), upsert the knowledge entry at mastery 50 when a topic was found, save the
  assistant message, and as the last four statements reset the plan fields. There is no
  \<^verbatim>\<open>try\<close> around any of it.
\<close>

definition outputCombinedResult :: "env \<Rightarrow> chat \<Rightarrow> unit outcome \<times> chat" where
  "outputCombinedResult e s =
     (case combined s of
        None \<Rightarrow> (Throw TypeError, s)
      | Some doc \<Rightarrow>
          (case (case inferSubjectTopicFromAI e (originalPrompt s) of
                   Some ti \<Rightarrow> Some ti
                 | None \<Rightarrow> extractTopicFromPrompt (originalPrompt s)) of
             Some (sj, tp) \<Rightarrow>
               (case updateKnowledge (clock e)
                       ((knowledge_data sj tp)
                          \<lparr>masteryLevel := Some 50, lastStudied := True,
                           d_notes := Some (''Learned via '' @ show_nat (length (planSteps s))
                                            @ ''-step explanation'')\<rparr>)
                       (store s) of
                  (Throw err, d) \<Rightarrow> (Throw err, s\<lparr>store := d\<rparr>)
                | (Ok _, d) \<Rightarrow> save_and_reset e doc (TrackingAdded sj tp) (s\<lparr>store := d\<rparr>))
           | None \<Rightarrow> save_and_reset e doc TrackingExplainMore s))"

text \<open>
  \<^verbatim>\<open>this.planSteps[stepIndex]\<close> followed by \<^verbatim>\<open>if (!step)\<close>: the element is \<^verbatim>\<open>undefined\<close> for
  \<^verbatim>\<open>NaN\<close>, a negative index and an index past the end, and the test also rejects an
  element that is there but falsy.
\<close>

definition step_at :: "jsval list \<Rightarrow> int option \<Rightarrow> (nat \<times> jsval) option" where
  "step_at steps stepIndex =
     (case stepIndex of
        None \<Rightarrow> None
      | Some i \<Rightarrow>
          if 0 \<le> i \<and> nat i < length steps \<and> truthy (steps ! nat i)
          then Some (nat i, steps ! nat i) else None)"

text \<open>\<^verbatim>\<open>xs[i] = v\<close>: an assignment past the end extends the array, leaving holes.\<close>

definition array_set :: "'a option list \<Rightarrow> nat \<Rightarrow> 'a \<Rightarrow> 'a option list" where
  "array_set xs i v =
     (if i < length xs then xs[i := Some v] else xs @ replicate (i - length xs) None @ [Some v])"

definition executeTask :: "env \<Rightarrow> string \<Rightarrow> chat \<Rightarrow> unit outcome \<times> chat" where
  "executeTask e description s =
     (if starts_with ''PLAN_STEP:'' description then
        (case step_at (planSteps s)
                (case js_split CHR '':'' description of _ # seg # _ \<Rightarrow> parseInt seg | _ \<Rightarrow> None) of
           None \<Rightarrow> (Ok (), s)
         | Some (stepIndex, step) \<Rightarrow>
             (case processStep e s step stepIndex of
                Throw err \<Rightarrow> (Throw err, s)
              | Ok stepResult \<Rightarrow>
                  (let s1 = s\<lparr>stepResults := array_set (stepResults s) stepIndex stepResult\<rparr>;
                       nextIndex = stepIndex + 1
                   in if nextIndex < length (planSteps s1)
                      then (Ok (), schedule 0 ''executeTask'' (''PLAN_STEP:'' @ show_nat nextIndex) s1)
                      else outputCombinedResult e s1)))
      else saveMessages e
             (messages s @ [\<lparr>role = ''user'', content = ScheduledTaskNotice description\<rparr>]) s)"

text \<open>
  The part of \<open>onChatMessage\<close> that follows a \<^verbatim>\<open>LEARNING\<close> classification of \<open>prompt\<close>: a plan
  of at most one step goes to the single-turn flow; a longer one is stored in the plan
  fields, acknowledged, and its first step is scheduled.
\<close>

datatype reply = SimpleFlow | PlanStarted

definition startPlan :: "env \<Rightarrow> string \<Rightarrow> jsval list \<Rightarrow> chat \<Rightarrow> reply outcome \<times> chat" where
  "startPlan e prompt plan s =
     (let s1 = s\<lparr>originalPrompt := prompt, planSteps := plan,
                 stepResults := replicate (length plan) (Some []), isProcessingPlan := True\<rparr>
      in case saveMessages e
                (messages s1 @ [\<lparr>role = ''assistant'', content = Acknowledgment (length plan) plan\<rparr>])
                s1 of
           (Throw err, s2) \<Rightarrow> (Throw err, s2)
         | (Ok _, s2) \<Rightarrow> (Ok PlanStarted, schedule 0 ''executeTask'' ''PLAN_STEP:0'' s2))"

definition onLearningMessage :: "env \<Rightarrow> string \<Rightarrow> chat \<Rightarrow> reply outcome \<times> chat" where
  "onLearningMessage e prompt s =
     (case generatePlan e prompt of
        Throw err \<Rightarrow> (Throw err, s)
      | Ok plan \<Rightarrow> if length plan \<le> 1 then (Ok SimpleFlow, s) else startPlan e prompt plan s)"

section \<open>The statistics as specified\<close>

text \<open>
  The aggregator in the words of its specification, to be compared with \<open>getQuizStats\<close>:
  the number of selected entries, the mean score rounded half up, the sums, the largest
  and smallest score (0 for an empty selection), the five most recent scores, and the
  five most frequent missed concepts of the ten most recent entries that recorded a missed
  concept. A subject that is absent or empty selects every entry.

  Most recent first means: by timestamp from the latest to the earliest, and among the
  entries of one timestamp in the order in which they were recorded. The concepts are
  sorted by descending frequency; equally frequent ones stand in the order of their first
  appearance among the entries read newest first, except that labels that are array
  indices (\<^verbatim>\<open>"0"\<close>, \<^verbatim>\<open>"17"\<close>) precede all others, in ascending numeric order.
\<close>

definition spec_selected :: "string option \<Rightarrow> quiz_row list \<Rightarrow> quiz_row list" where
  "spec_selected subject ledger =
     (if subject = None \<or> subject = Some [] then ledger
      else filter (\<lambda>r. Some (q_subject r) = subject) ledger)"

definition spec_mean :: "int list \<Rightarrow> int" where
  "spec_mean xs =
     (if xs = [] then 0 else (2 * sum_list xs + int (length xs)) div (2 * int (length xs)))"

definition spec_best :: "int list \<Rightarrow> int" where
  "spec_best xs = (if xs = [] then 0 else Max (set xs))"

definition spec_worst :: "int list \<Rightarrow> int" where
  "spec_worst xs = (if xs = [] then 0 else Min (set xs))"

definition newest_first :: "quiz_row list \<Rightarrow> quiz_row list" where
  "newest_first rows =
     concat (map (\<lambda>d. filter (\<lambda>r. quiz_date r = d) rows)
                 (rev (sort (remdups (map quiz_date rows)))))"

definition first_seen :: "'a list \<Rightarrow> 'a list" where
  "first_seen cs = rev (remdups (rev cs))"

definition label_order :: "string list \<Rightarrow> string list" where
  "label_order cs = sort_key digits_val (filter array_index cs) @ filter (\<lambda>c. \<not> array_index c) cs"

definition spec_missed_pool :: "quiz_row list \<Rightarrow> string list" where
  "spec_missed_pool rows =
     concat (map (\<lambda>r. or_else (missed_concepts r) [])
                 (take 10 (filter (\<lambda>r. missed_concepts r \<noteq> None) (newest_first rows))))"

definition spec_most_missed :: "string list \<Rightarrow> string list" where
  "spec_most_missed pool =
     take 5 (sort_key (\<lambda>c. - int (count_list pool c)) (label_order (first_seen pool)))"

definition spec_stats :: "string option \<Rightarrow> quiz_row list \<Rightarrow> QuizStats" where
  "spec_stats subject ledger =
     (let rows = spec_selected subject ledger; scores = map score rows
      in \<lparr>totalQuizzes = length rows,
          averageScore = spec_mean scores,
          st_totalQuestions = sum_list (map total_questions rows),
          totalCorrect = sum_list (map correct_answers rows),
          bestScore = spec_best scores,
          worstScore = spec_worst scores,
          recentScores = map score (take 5 (newest_first rows)),
          mostMissedConcepts = spec_most_missed (spec_missed_pool rows)\<rparr>)"

text \<open>
  A ledger none of whose concept labels is the name of a property of \<^verbatim>\<open>Object.prototype\<close>.
\<close>

definition own_labels :: "quiz_row list \<Rightarrow> bool" where
  "own_labels rows \<longleftrightarrow>
     list_all (\<lambda>r. list_all (\<lambda>c. c \<notin> set Object_prototype_names) (or_else (missed_concepts r) []))
       rows"

text \<open>An update of a knowledge row that leaves its key (subject, topic) alone.\<close>

definition keeps_key :: "(knowledge_row \<Rightarrow> knowledge_row) \<Rightarrow> bool" where
  "keeps_key f \<longleftrightarrow> (\<forall>r. k_subject (f r) = k_subject r \<and> k_topic (f r) = k_topic r)"

section \<open>Example states\<close>

definition krow :: "nat \<Rightarrow> string \<Rightarrow> int \<Rightarrow> int \<Rightarrow> knowledge_row" where
  "krow i t m c = \<lparr>k_id = i, k_subject = ''General'', k_topic = t, mastery_level = m,
     confidence = c, times_studied = 0, times_quizzed = 0, last_studied = None,
     last_quizzed = None, weak_areas = None, k_notes = None\<rparr>"

definition boundary_db :: db where
  "boundary_db = empty_db\<lparr>knowledge := [krow 1 ''a'' 60 50, krow 2 ''b'' 60 49, krow 3 ''c'' 59 90],
     knowledge_seq := 3\<rparr>"

definition no_prefs :: prefs_data where
  "no_prefs = \<lparr>d_goal = None, learnTopic = None, learnConcept = None, examName = None,
     examDepth = None, examTimeLeft = None, quizTopic = None, quizNumQuestions = None,
     d_quizType = None, quizHintsAllowed = None, onboardingComplete = None\<rparr>"

definition quiz_result :: "string \<Rightarrow> string option \<Rightarrow> string \<Rightarrow> int \<Rightarrow> string list \<Rightarrow> QuizResult" where
  "quiz_result sj tp ty sc missed = \<lparr>qr_subject = sj, qr_topic = tp, quizType = ty, qr_score = sc,
     totalQuestions = 10, correctAnswers = 8, missedConcepts = missed, timeSpentSeconds = None,
     hintsUsed = None\<rparr>"

definition zero_stats :: QuizStats where
  "zero_stats = \<lparr>totalQuizzes = 0, averageScore = 0, st_totalQuestions = 0, totalCorrect = 0,
     bestScore = 0, worstScore = 0, recentScores = [], mostMissedConcepts = []\<rparr>"

definition demo_env :: env where
  "demo_env = \<lparr>ai = (\<lambda>r. case r of
                       StepRequest i n p prev st \<Rightarrow> AiReturn (JObj [(''response'', JStr ''answer'')])
                     | _ \<Rightarrow> AiThrow),
     JSON_parse = (\<lambda>_. None), JSON_stringify = (\<lambda>_. []), save_ok = (\<lambda>_. True), clock = 7\<rparr>"

definition demo_plan :: "jsval list" where
  "demo_plan = [JStr ''Step 1: define X'', JStr ''Step 2: give example of X'']"




definition started_chat :: chat where
  "started_chat = snd (startPlan demo_env ''explain X'' demo_plan new_chat)"

definition after_step0 :: chat where
  "after_step0 = snd (executeTask demo_env ''PLAN_STEP:0'' started_chat)"

definition ledger_entry :: "nat \<Rightarrow> int \<Rightarrow> string list option \<Rightarrow> quiz_row" where
  "ledger_entry i sc missed = \<lparr>q_id = i, q_subject = ''Math'', q_topic = None,
     q_quiz_type = ''mixed'', score = sc, total_questions = 10, correct_answers = 7,
     missed_concepts = missed, time_spent_seconds = None, hints_used = 0, quiz_date = i\<rparr>"



definition same_second_db :: db where
  "same_second_db = empty_db\<lparr>quiz_history :=
       map (\<lambda>i. (ledger_entry i (10 * int i) None)\<lparr>quiz_date := 1\<rparr>) [1..<8],
     quiz_seq := 7\<rparr>"

definition inherited_db :: db where
  "inherited_db = empty_db\<lparr>quiz_history :=
       [ledger_entry 1 40 (Some [''sets'', ''sets'']),
        ledger_entry 2 60 (Some [''constructor'', ''__proto__''])],
     quiz_seq := 2\<rparr>"


section \<open>Weak areas\<close>

lemma getWeakAreas_boundary:
  "getWeakAreas None boundary_db = [krow 3 ''c'' 59 90, krow 2 ''b'' 60 49]"
  by (simp add: getWeakAreas_def sql_limit_def or_else_def boundary_db_def empty_db_def
      krow_def is_weak_def weak_key_def)

text \<open>
  Claim C9. For every knowledge table and every limit \<open>n \<ge> 0\<close>, \<open>getWeakAreas\<close> returns the
  first \<open>n\<close> (10 when no limit is given) rows of a list that holds exactly the rows with
  mastery below 60 or confidence below 50, each as often as the table does, in ascending
  order of the pair (mastery, confidence).
\<close>

theorem getWeakAreas_weakest_first:
  assumes "0 \<le> n"
  shows "\<exists>full. mset full = {#r \<in># mset (knowledge s). mastery_level r < 60 \<or> confidence r < 50#}
           \<and> sorted (map (\<lambda>r. (mastery_level r, confidence r)) full)
           \<and> getWeakAreas (Some n) s = take (nat n) full
           \<and> getWeakAreas None s = take 10 full"
proof -
  let ?full = "sort_key weak_key (filter is_weak (knowledge s))"
  have "mset ?full = {#r \<in># mset (knowledge s). mastery_level r < 60 \<or> confidence r < 50#}"
    by (simp add: is_weak_def)
  moreover have "sorted (map (\<lambda>r. (mastery_level r, confidence r)) ?full)"
    using sorted_sort_key [of weak_key "filter is_weak (knowledge s)"]
    by (simp add: weak_key_def [abs_def])
  moreover have "getWeakAreas (Some n) s = take (nat n) ?full"
    using assms by (simp add: getWeakAreas_def sql_limit_def or_else_def)
  moreover have "getWeakAreas None s = take 10 ?full"
    by (simp add: getWeakAreas_def sql_limit_def or_else_def)
  ultimately show ?thesis by blast
qed

text \<open>
  The boundary rows: (59, 90) and (60, 49) are returned, weakest first, and (60, 50) is not.
\<close>

theorem getWeakAreas_weakest_first_witness:
  "(0::int) \<le> 10 \<and> getWeakAreas None boundary_db = [krow 3 ''c'' 59 90, krow 2 ''b'' 60 49]
   \<and> (\<exists>full. mset full = {#r \<in># mset (knowledge boundary_db). mastery_level r < 60 \<or> confidence r < 50#}
           \<and> sorted (map (\<lambda>r. (mastery_level r, confidence r)) full)
           \<and> getWeakAreas (Some 10) boundary_db = take (nat 10) full
           \<and> getWeakAreas None boundary_db = take 10 full)"
  using getWeakAreas_weakest_first [of 10 boundary_db] getWeakAreas_boundary by simp

section \<open>Reset\<close>

lemma Math_round_zero: "Math_round 0 = 0"
  unfolding Math_round_def by (simp add: floor_eq_iff)

lemma getQuizStats_empty_ledger:
  "quiz_history s = [] \<Longrightarrow> getQuizStats sort_impl subject s = zero_stats"
  by (simp add: getQuizStats_def subject_filter_def order_by_date_desc_def sql_avg_def
      sql_max_def sql_min_def conceptCounts_def sortedConcepts_def Object_entries_def
      Math_round_zero zero_stats_def split: option.splits)

text \<open>
  Claim C8. \<open>resetProgress\<close> with scope \<^verbatim>\<open>quizzes\<close> empties the quiz ledger and leaves every
  other part of the database as it was: the knowledge rows, and with them the answer of
  \<open>getWeakAreas\<close>, are the same, and \<open>getQuizStats\<close> then reports zero quizzes and all-zero
  statistics. Scope \<^verbatim>\<open>knowledge\<close> empties only the knowledge table, \<^verbatim>\<open>sessions\<close> only the
  study sessions, and \<^verbatim>\<open>all\<close> empties the three tables, the profile and the session
  preferences.
\<close>

theorem resetProgress_scopes:
  "resetProgress ''quizzes'' s = (Ok (), s\<lparr>quiz_history := []\<rparr>)
   \<and> knowledge (snd (resetProgress ''quizzes'' s)) = knowledge s
   \<and> getWeakAreas limit (snd (resetProgress ''quizzes'' s)) = getWeakAreas limit s
   \<and> getQuizStats sort_impl subject (snd (resetProgress ''quizzes'' s)) = zero_stats
   \<and> resetProgress ''knowledge'' s = (Ok (), s\<lparr>knowledge := []\<rparr>)
   \<and> resetProgress ''sessions'' s = (Ok (), s\<lparr>study_sessions := []\<rparr>)
   \<and> resetProgress ''all'' s =
         (Ok (), s\<lparr>knowledge := [], quiz_history := [], study_sessions := [],
                    user_profile := None, session_preferences := None\<rparr>)"
proof -
  have q: "resetProgress ''quizzes'' s = (Ok (), s\<lparr>quiz_history := []\<rparr>)"
    by (simp add: resetProgress_def ResetType_values_def delete_if_def)
  have k: "resetProgress ''knowledge'' s = (Ok (), s\<lparr>knowledge := []\<rparr>)"
    by (simp add: resetProgress_def ResetType_values_def delete_if_def)
  have ss: "resetProgress ''sessions'' s = (Ok (), s\<lparr>study_sessions := []\<rparr>)"
    by (simp add: resetProgress_def ResetType_values_def delete_if_def)
  have a: "resetProgress ''all'' s =
         (Ok (), s\<lparr>knowledge := [], quiz_history := [], study_sessions := [],
                    user_profile := None, session_preferences := None\<rparr>)"
    by (simp add: resetProgress_def ResetType_values_def delete_if_def)
  have w: "getWeakAreas limit (s\<lparr>quiz_history := []\<rparr>) = getWeakAreas limit s"
    by (simp add: getWeakAreas_def)
  have z: "getQuizStats sort_impl subject (s\<lparr>quiz_history := []\<rparr>) = zero_stats"
    by (rule getQuizStats_empty_ledger) simp
  show ?thesis using q k ss a w z by simp
qed

section \<open>Validation of enumerated fields\<close>

text \<open>
  Claim C6. A value outside its enumeration makes the operation throw a validation error
  and return the database exactly as it received it: the goal, the exam depth and the
  quiz type of \<open>updateSessionPreferences\<close>, the quiz type of \<open>recordQuiz\<close>, the session type
  of \<open>startSession\<close> and the reset type of \<open>resetProgress\<close>.
\<close>

theorem invalid_enum_rejected_before_any_write:
  "(d_goal d = Some g \<and> g \<notin> set Goal_values
      \<longrightarrow> (\<exists>m. updateSessionPreferences d s = (Throw (ValidationError m), s)))
   \<and> (examDepth d = Some x \<and> x \<notin> set ExamDepth_values
      \<longrightarrow> (\<exists>m. updateSessionPreferences d s = (Throw (ValidationError m), s)))
   \<and> (d_quizType d = Some q \<and> q \<notin> set QuizType_values
      \<longrightarrow> (\<exists>m. updateSessionPreferences d s = (Throw (ValidationError m), s)))
   \<and> (quizType r \<notin> set QuizType_values
      \<longrightarrow> (\<exists>m. recordQuiz now r s = (Throw (ValidationError m), s)))
   \<and> (st \<notin> set SessionType_values
      \<longrightarrow> (\<exists>m. startSession now st sj tp s = (Throw (ValidationError m), s)))
   \<and> (rt \<notin> set ResetType_values
      \<longrightarrow> (\<exists>m. resetProgress rt s = (Throw (ValidationError m), s)))"
proof (intro conjI impI)
  assume "d_goal d = Some g \<and> g \<notin> set Goal_values"
  then show "\<exists>m. updateSessionPreferences d s = (Throw (ValidationError m), s)"
    by (simp add: updateSessionPreferences_def enum_error_def split: option.splits)
next
  assume "examDepth d = Some x \<and> x \<notin> set ExamDepth_values"
  then show "\<exists>m. updateSessionPreferences d s = (Throw (ValidationError m), s)"
    by (simp add: updateSessionPreferences_def enum_error_def split: option.splits)
next
  assume "d_quizType d = Some q \<and> q \<notin> set QuizType_values"
  then show "\<exists>m. updateSessionPreferences d s = (Throw (ValidationError m), s)"
    by (simp add: updateSessionPreferences_def enum_error_def split: option.splits)
next
  assume "quizType r \<notin> set QuizType_values"
  then show "\<exists>m. recordQuiz now r s = (Throw (ValidationError m), s)"
    by (simp add: recordQuiz_def)
next
  assume "st \<notin> set SessionType_values"
  then show "\<exists>m. startSession now st sj tp s = (Throw (ValidationError m), s)"
    by (simp add: startSession_def)
next
  assume "rt \<notin> set ResetType_values"
  then show "\<exists>m. resetProgress rt s = (Throw (ValidationError m), s)"
    by (simp add: resetProgress_def)
qed

theorem invalid_enum_rejected_before_any_write_witness:
  "''cram'' \<notin> set Goal_values \<and> ''shallow'' \<notin> set ExamDepth_values
   \<and> ''essay'' \<notin> set QuizType_values \<and> ''nap'' \<notin> set SessionType_values
   \<and> ''everything'' \<notin> set ResetType_values
   \<and> (\<exists>m. updateSessionPreferences (no_prefs\<lparr>d_goal := Some ''cram''\<rparr>) boundary_db
          = (Throw (ValidationError m), boundary_db))
   \<and> (\<exists>m. updateSessionPreferences (no_prefs\<lparr>learnTopic := Some ''Sets'', examDepth := Some ''shallow''\<rparr>)
            boundary_db
          = (Throw (ValidationError m), boundary_db))
   \<and> (\<exists>m. updateSessionPreferences (no_prefs\<lparr>d_goal := Some ''quiz'', d_quizType := Some ''essay''\<rparr>)
            boundary_db
          = (Throw (ValidationError m), boundary_db))
   \<and> (\<exists>m. recordQuiz 5 (quiz_result ''Math'' (Some ''Sets'') ''essay'' 80 []) boundary_db
          = (Throw (ValidationError m), boundary_db))
   \<and> (\<exists>m. startSession 5 ''nap'' None None boundary_db = (Throw (ValidationError m), boundary_db))
   \<and> (\<exists>m. resetProgress ''everything'' boundary_db = (Throw (ValidationError m), boundary_db))"
  using invalid_enum_rejected_before_any_write
    [of "no_prefs\<lparr>d_goal := Some ''cram''\<rparr>"
        "''cram''" boundary_db "''shallow''" "''essay''"
        "quiz_result ''Math'' (Some ''Sets'') ''essay'' 80 []" 5 "''nap''" None None "''everything''"]
    invalid_enum_rejected_before_any_write
    [of "no_prefs\<lparr>learnTopic := Some ''Sets'', examDepth := Some ''shallow''\<rparr>"
        "''cram''" boundary_db "''shallow''"]
    invalid_enum_rejected_before_any_write
    [of "no_prefs\<lparr>d_goal := Some ''quiz'', d_quizType := Some ''essay''\<rparr>"
        "''cram''" boundary_db "''shallow''" "''essay''"]
  by (simp add: Goal_values_def ExamDepth_values_def QuizType_values_def SessionType_values_def
      ResetType_values_def quiz_result_def no_prefs_def)

section \<open>Quiz submissions\<close>

text \<open>
  Claim C10. A submission without a topic never changes the knowledge table, whatever its
  other fields are; when the submission is accepted (valid quiz type, score from 0 to
  100) the ledger gains exactly one row, whose topic is null, and nothing else changes.
\<close>

theorem recordQuiz_without_topic:
  assumes "qr_topic d = None"
  shows "knowledge (snd (recordQuiz now d s)) = knowledge s
     \<and> (quizType d \<in> set QuizType_values \<and> 0 \<le> qr_score d \<and> qr_score d \<le> 100 \<longrightarrow>
          recordQuiz now d s =
            (Ok (Suc (quiz_seq s)),
             s\<lparr>quiz_history := quiz_history s @ [ledger_row (Suc (quiz_seq s)) now d],
               quiz_seq := Suc (quiz_seq s)\<rparr>)
          \<and> q_topic (ledger_row (Suc (quiz_seq s)) now d) = None)"
  using assms by (simp add: recordQuiz_def Let_def check_percent_def ledger_row_def)

theorem recordQuiz_without_topic_witness:
  "qr_topic (quiz_result ''General'' None ''mixed'' 20 [''x'']) = None
   \<and> ''mixed'' \<in> set QuizType_values
   \<and> knowledge (snd (recordQuiz 5 (quiz_result ''General'' None ''mixed'' 20 [''x'']) boundary_db))
       = knowledge boundary_db
   \<and> recordQuiz 5 (quiz_result ''General'' None ''mixed'' 20 [''x'']) boundary_db =
       (Ok 1, boundary_db\<lparr>quiz_history :=
          [\<lparr>q_id = 1, q_subject = ''General'', q_topic = None, q_quiz_type = ''mixed'',
            score = 20, total_questions = 10, correct_answers = 8,
            missed_concepts = Some [''x''], time_spent_seconds = None, hints_used = 0,
            quiz_date = 5\<rparr>], quiz_seq := 1\<rparr>)"
  using recordQuiz_without_topic [of "quiz_result ''General'' None ''mixed'' 20 [''x'']" 5 boundary_db]
  by (simp add: quiz_result_def QuizType_values_def ledger_row_def boundary_db_def empty_db_def
      or_else_def)

section \<open>The mastery rule\<close>

lemma foldl_set_add_set: "set (foldl set_add acc xs) = set acc \<union> set xs"
  by (induction xs arbitrary: acc) (auto simp: set_add_def)

lemma foldl_set_add_distinct: "distinct acc \<Longrightarrow> distinct (foldl set_add acc xs)"
  by (induction xs arbitrary: acc) (auto simp: set_add_def)

lemma spread_set_union:
  "set (spread_set (xs @ ys)) = set xs \<union> set ys \<and> distinct (spread_set (xs @ ys))"
  by (simp add: spread_set_def foldl_set_add_set foldl_set_add_distinct)

lemma find_update_where:
  assumes "\<And>r. P r \<Longrightarrow> P (f r)"
  shows "List.find P (map (\<lambda>r. if P r then f r else r) xs) = map_option f (List.find P xs)"
  using assms by (induction xs) auto

text \<open>
  The rule on three inputs: the worked example of the specification, a resubmitted score,
  and a pair where binary64 leaves the sum just below 11.5, so that the result is 11 and
  not the 12 of exact arithmetic.
\<close>

lemma newMastery_40_100: "newMastery 40 100 = 58"
  by code_simp

lemma newMastery_80_80: "newMastery 80 80 = 80"
  by code_simp

lemma newMastery_1_36: "newMastery 1 36 = 11"
  by code_simp

lemma getTopicMastery_update_where:
  assumes "keeps_key f"
  shows "getTopicMastery (update_where sj tp f s) sj tp = map_option f (getTopicMastery s sj tp)"
proof -
  have "\<And>r. k_subject r = sj \<and> k_topic r = tp \<Longrightarrow> k_subject (f r) = sj \<and> k_topic (f r) = tp"
    using assms by (simp add: keeps_key_def)
  then show ?thesis
    unfolding getTopicMastery_def update_where_def
    using find_update_where [of "\<lambda>r. k_subject r = sj \<and> k_topic r = tp" f "knowledge s"]
    by simp
qed

lemma update_where_compose:
  assumes "keeps_key g"
  shows "update_where sj tp f (update_where sj tp g s) = update_where sj tp (f \<circ> g) s"
  using assms by (simp add: update_where_def keeps_key_def)

lemma keeps_key_set_mastery: "keeps_key (set_if v (\<lambda>x r. r\<lparr>mastery_level := x\<rparr>))"
  by (simp add: keeps_key_def set_if_def split: option.splits)

lemma updateKnowledge_existing:
  assumes "getTopicMastery s (d_subject d) (d_topic d) = Some old"
    and "check_percent (or_else (masteryLevel d) 0)"
    and "check_percent (or_else (d_confidence d) 0)"
  shows "updateKnowledge now d s =
     (Ok (), update_where (d_subject d) (d_topic d)
        (update_rest now d \<circ> set_if (d_confidence d) (\<lambda>x r. r\<lparr>confidence := x\<rparr>)
           \<circ> set_if (masteryLevel d) (\<lambda>x r. r\<lparr>mastery_level := x\<rparr>)) s)"
  using assms
  by (simp add: updateKnowledge_def Let_def update_where_compose [OF keeps_key_set_mastery] comp_assoc)

lemma getTopicMastery_ledger:
  "getTopicMastery (s\<lparr>quiz_history := h, quiz_seq := n\<rparr>) sj tp = getTopicMastery s sj tp"
  by (simp add: getTopicMastery_def)

text \<open>
  A first submission for a (subject, topic) creates the entry with the score as mastery,
  one quiz counted and the missed concepts stored as submitted.
\<close>

lemma recordQuiz_new_entry:
  assumes "quizType d \<in> set QuizType_values" and "0 \<le> qr_score d" and "qr_score d \<le> 100"
    and "qr_topic d = Some t" and "t \<noteq> []"
    and "getTopicMastery s (qr_subject d) t = None"
  shows "recordQuiz now d s =
     (Ok (Suc (quiz_seq s)),
      s\<lparr>quiz_history := quiz_history s @ [ledger_row (Suc (quiz_seq s)) now d],
        quiz_seq := Suc (quiz_seq s),
        knowledge := knowledge s @
          [\<lparr>k_id = Suc (knowledge_seq s), k_subject = qr_subject d, k_topic = t,
            mastery_level = qr_score d, confidence = 0, times_studied = 0, times_quizzed = 1,
            last_studied = None, last_quizzed = Some now,
            weak_areas = Some (missedConcepts d), k_notes = None\<rparr>],
        knowledge_seq := Suc (knowledge_seq s)\<rparr>)"
  using assms
  by (simp add: recordQuiz_def Let_def check_percent_def getTopicMastery_def updateKnowledge_def
      knowledge_data_def or_else_def returning_def)

text \<open>
  A later submission changes the entry by the weighted rule, clamped to 0..100, counts one
  more quiz and merges the missed concepts into the weak areas without duplicates.
\<close>

lemma recordQuiz_existing_entry:
  assumes "quizType d \<in> set QuizType_values" and "0 \<le> qr_score d" and "qr_score d \<le> 100"
    and "qr_topic d = Some t" and "t \<noteq> []"
    and "getTopicMastery s (qr_subject d) t = Some old"
  shows "fst (recordQuiz now d s) = Ok (Suc (quiz_seq s))
     \<and> quiz_history (snd (recordQuiz now d s))
         = quiz_history s @ [ledger_row (Suc (quiz_seq s)) now d]
     \<and> getTopicMastery (snd (recordQuiz now d s)) (qr_subject d) t =
      Some (old\<lparr>mastery_level := min 100 (max 0 (newMastery (mastery_level old) (qr_score d))),
                times_quizzed := times_quizzed old + 1,
                last_quizzed := Some now,
                weak_areas := Some (spread_set (or_else (weak_areas old) [] @ missedConcepts d))\<rparr>)"
proof -
  let ?s1 = "s\<lparr>quiz_history := quiz_history s @ [ledger_row (Suc (quiz_seq s)) now d],
               quiz_seq := Suc (quiz_seq s)\<rparr>"
  let ?kd = "(knowledge_data (qr_subject d) t)
     \<lparr>masteryLevel := Some (min 100 (max 0 (newMastery (mastery_level old) (qr_score d)))),
      timesQuizzed := Some (times_quizzed old + 1), lastQuizzed := True,
      weakAreas := Some (spread_set (or_else (weak_areas old) [] @ missedConcepts d))\<rparr>"
  let ?f = "update_rest now ?kd \<circ> set_if (d_confidence ?kd) (\<lambda>x r. r\<lparr>confidence := x\<rparr>)
           \<circ> set_if (masteryLevel ?kd) (\<lambda>x r. r\<lparr>mastery_level := x\<rparr>)"
  have g: "getTopicMastery ?s1 (qr_subject d) t = Some old"
    using assms(6) by (simp add: getTopicMastery_ledger)
  have k: "d_subject ?kd = qr_subject d" "d_topic ?kd = t"
    by (simp_all add: knowledge_data_def)
  have u: "updateKnowledge now ?kd ?s1 = (Ok (), update_where (qr_subject d) t ?f ?s1)"
    using updateKnowledge_existing [of ?s1 ?kd old now] g
    by (simp add: k knowledge_data_def or_else_def check_percent_def)
  have r: "recordQuiz now d s = (Ok (Suc (quiz_seq s)), update_where (qr_subject d) t ?f ?s1)"
    using assms(1-5) g u by (simp add: recordQuiz_def Let_def check_percent_def returning_def)
  have kk: "keeps_key ?f"
    by (simp add: keeps_key_def set_if_def update_rest_def knowledge_data_def)
  have "getTopicMastery (update_where (qr_subject d) t ?f ?s1) (qr_subject d) t = Some (?f old)"
    using getTopicMastery_update_where [OF kk, where s = ?s1 and sj = "qr_subject d" and tp = t] g
    by simp
  moreover have "?f old =
      old\<lparr>mastery_level := min 100 (max 0 (newMastery (mastery_level old) (qr_score d))),
          times_quizzed := times_quizzed old + 1,
          last_quizzed := Some now,
          weak_areas := Some (spread_set (or_else (weak_areas old) [] @ missedConcepts d))\<rparr>"
    by (simp add: set_if_def update_rest_def knowledge_data_def)
  ultimately show ?thesis using r by (simp add: update_where_def)
qed

text \<open>
  Claim C3, at the input where the code departs from it: the first submission for
  (Math, Sets), score 80, with the missed concept \<^verbatim>\<open>union\<close> listed twice. The entry is
  created with mastery 80 and one quiz counted, and its weak areas are the submitted list
  with the duplicate, not the duplicate-free union. (The update of an existing entry does
  remove duplicates, see \<open>recordQuiz_existing_entry\<close> and \<open>spread_set_union\<close>.)
\<close>

theorem recordQuiz_first_submission_keeps_duplicates:
  "recordQuiz 5 (quiz_result ''Math'' (Some ''Sets'') ''mixed'' 80 [''union'', ''union'']) empty_db =
     (Ok 1,
      empty_db\<lparr>quiz_history :=
          [\<lparr>q_id = 1, q_subject = ''Math'', q_topic = Some ''Sets'', q_quiz_type = ''mixed'',
            score = 80, total_questions = 10, correct_answers = 8,
            missed_concepts = Some [''union'', ''union''], time_spent_seconds = None,
            hints_used = 0, quiz_date = 5\<rparr>],
        quiz_seq := 1,
        knowledge :=
          [\<lparr>k_id = 1, k_subject = ''Math'', k_topic = ''Sets'', mastery_level = 80,
            confidence = 0, times_studied = 0, times_quizzed = 1, last_studied = None,
            last_quizzed = Some 5, weak_areas = Some [''union'', ''union''], k_notes = None\<rparr>],
        knowledge_seq := 1\<rparr>)"
  by (simp add: recordQuiz_def Let_def check_percent_def getTopicMastery_def updateKnowledge_def
      knowledge_data_def or_else_def returning_def quiz_result_def QuizType_values_def
      empty_db_def ledger_row_def)

section \<open>Plan generator\<close>

lemma parseStepsFromString_length: "length (parseStepsFromString parse text p) \<le> 10"
  by (simp add: parseStepsFromString_def split: option.splits jsval.splits)

lemma stepsFromResult_length: "length (stepsFromResult parse p r) \<le> 10"
  by (simp add: stepsFromResult_def parseStepsFromString_length split: jsval.splits)

text \<open>Output from which no list can be parsed gives the prompt as the only step.\<close>

lemma parseStepsFromString_fallback:
  assumes "\<And>t xs. parse t \<noteq> Some (JArr xs)"
  shows "parseStepsFromString parse text p = [JStr p]"
  using assms by (auto simp: parseStepsFromString_def split: option.splits jsval.splits)

text \<open>The plan is empty only when the service gave, or the text held, an empty list.\<close>

lemma parseStepsFromString_empty:
  "parseStepsFromString parse text p = [] \<Longrightarrow> \<exists>t. parse t = Some (JArr [])"
  by (auto simp: parseStepsFromString_def split: option.splits jsval.splits)

lemma stepsFromResult_empty:
  assumes "stepsFromResult parse p r = []"
  shows "get_prop r ''response'' = JArr [] \<or> get_prop r ''result'' = JArr []
         \<or> (\<exists>t. parse t = Some (JArr []))"
  using assms parseStepsFromString_empty [of parse _ p]
  by (auto simp: stepsFromResult_def split: if_splits jsval.splits)

text \<open>
  Claim C2, at the input where the code departs from it: the service answers with an
  object whose \<^verbatim>\<open>response\<close> is the empty array. \<open>generatePlan\<close> returns that array, cut to
  ten entries: a plan of no steps, where the claim and the method's own documentation
  promise between one and ten.
\<close>

theorem generatePlan_empty_array:
  "generatePlan (e\<lparr>ai := \<lambda>_. AiReturn (JObj [(''response'', JArr [])])\<rparr>) prompt = Ok []"
  by (simp add: generatePlan_def stepsFromResult_def get_prop_def)

text \<open>A plan of no step or one step never reaches the scheduler.\<close>

lemma onLearningMessage_short_plan:
  "generatePlan e prompt = Ok plan \<Longrightarrow> length plan \<le> 1 \<Longrightarrow> onLearningMessage e prompt s = (Ok SimpleFlow, s)"
  by (simp add: onLearningMessage_def)

section \<open>Step scheduler\<close>

lemma digits_val_snoc: "digits_val (ds @ [c]) = 10 * digits_val ds + digit_val c"
  by (simp add: digits_val_def)

lemma digit_char:
  assumes "d < 10"
  shows "is_digit (char_of (48 + d))" and "digit_val (char_of (48 + d)) = d"
    and "char_of (48 + d) \<noteq> CHR '':''"
proof -
  have c: "(of_char (char_of (48 + d)) :: nat) = 48 + d"
    using assms by simp
  show "is_digit (char_of (48 + d))" using assms c by (simp add: is_digit_def)
  show "digit_val (char_of (48 + d)) = d" using c by (simp add: digit_val_def)
  show "char_of (48 + d) \<noteq> CHR '':''"
  proof
    assume "char_of (48 + d) = CHR '':''"
    then have "(of_char (char_of (48 + d)) :: nat) = of_char CHR '':''" by simp
    then show False using c assms by simp
  qed
qed

lemma show_nat_props:
  "show_nat n \<noteq> [] \<and> (\<forall>c \<in> set (show_nat n). is_digit c \<and> c \<noteq> CHR '':'')
   \<and> digits_val (show_nat n) = n"
proof (induction n rule: show_nat.induct)
  case (1 n)
  show ?case
  proof (cases "n < 10")
    case True
    then show ?thesis
      using digit_char [of n] by (simp add: show_nat.simps [of n] digits_val_def)
  next
    case False
    have m: "n mod 10 < 10" by simp
    from False 1 have ih: "show_nat (n div 10) \<noteq> []"
      "\<forall>c \<in> set (show_nat (n div 10)). is_digit c \<and> c \<noteq> CHR '':''"
      "digits_val (show_nat (n div 10)) = n div 10" by simp_all
    show ?thesis
      using False ih digit_char [OF m]
      by (simp add: show_nat.simps [of n] digits_val_snoc)
  qed
qed

lemma hd_show_nat: "is_digit (hd (show_nat n))"
  using show_nat_props [of n] by (cases "show_nat n") auto

lemma is_digit_not_sign: "is_digit c \<Longrightarrow> \<not> is_space c \<and> c \<noteq> CHR ''-'' \<and> c \<noteq> CHR ''+''"
  by (auto simp: is_digit_def is_space_def)

text \<open>\<^verbatim>\<open>parseInt\<close> reads back the index that the template literal printed.\<close>

lemma parseInt_show_nat: "parseInt (show_nat n) = Some (int n)"
proof -
  have ne: "show_nat n \<noteq> []" using show_nat_props [of n] by simp
  have d: "is_digit (hd (show_nat n))" by (rule hd_show_nat)
  have tw: "takeWhile is_digit (show_nat n) = show_nat n"
    using show_nat_props [of n] by (simp add: takeWhile_eq_all_conv)
  have dw: "dropWhile is_space (show_nat n) = show_nat n"
    using ne d is_digit_not_sign [of "hd (show_nat n)"] by (cases "show_nat n") auto
  have v: "digits_val (show_nat n) = n" using show_nat_props [of n] by simp
  show ?thesis
    using ne is_digit_not_sign [OF d] by (simp add: parseInt_def Let_def dw tw v)
qed

lemma js_split_none: "c \<notin> set xs \<Longrightarrow> js_split c xs = [xs]"
  by (induction xs) auto

lemma js_split_show_nat: "js_split CHR '':'' (show_nat n) = [show_nat n]"
  using show_nat_props [of n] by (intro js_split_none) auto

lemma show_nat_small: "show_nat 0 = ''0''" "show_nat (Suc 0) = ''1''" "show_nat 2 = ''2''"
  by code_simp+

text \<open>
  What a continuation \<^verbatim>\<open>PLAN_STEP:i\<close> does: when \<open>steps[i]\<close> exists and is truthy, the step
  processor is called on it with index \<open>i\<close>, its text is written to \<open>results[i]\<close>, and then
  either \<^verbatim>\<open>PLAN_STEP:i+1\<close> is scheduled with delay 0 or, after the last step, the combiner
  runs; a failing service call leaves the state as it was. Otherwise the continuation
  returns at once and the state is unchanged.
\<close>

lemma executeTask_plan_step:
  "executeTask e (''PLAN_STEP:'' @ show_nat i) s =
     (if i < length (planSteps s) \<and> truthy (planSteps s ! i) then
        (case processStep e s (planSteps s ! i) i of
           Throw err \<Rightarrow> (Throw err, s)
         | Ok stepResult \<Rightarrow>
             if i + 1 < length (planSteps s)
             then (Ok (), schedule 0 ''executeTask'' (''PLAN_STEP:'' @ show_nat (i + 1))
                            (s\<lparr>stepResults := array_set (stepResults s) i stepResult\<rparr>))
             else outputCombinedResult e (s\<lparr>stepResults := array_set (stepResults s) i stepResult\<rparr>))
      else (Ok (), s))"
  by (simp add: executeTask_def starts_with_def js_split_show_nat parseInt_show_nat step_at_def
      Let_def split: outcome.splits)

lemma executeTask_not_a_number:
  "parseInt seg = None \<Longrightarrow> CHR '':'' \<notin> set seg \<Longrightarrow> executeTask e (''PLAN_STEP:'' @ seg) s = (Ok (), s)"
  by (simp add: executeTask_def starts_with_def js_split_none step_at_def)

text \<open>
  Claim C5, at the input where the code departs from it: the plan has two steps and the
  second one is the empty string. Index 1 is a valid index, but \<^verbatim>\<open>if (!step)\<close> takes the
  empty string for a missing step: the continuation \<^verbatim>\<open>PLAN_STEP:1\<close> returns without calling
  the step processor, without writing a result and without running the combiner, and the
  state is exactly what it was.
\<close>

theorem executeTask_drops_empty_step:
  "executeTask e ''PLAN_STEP:1'' (s\<lparr>planSteps := [JStr ''Step 1: define X'', JStr '''']\<rparr>)
     = (Ok (), s\<lparr>planSteps := [JStr ''Step 1: define X'', JStr '''']\<rparr>)"
  using executeTask_plan_step [of e 1 "s\<lparr>planSteps := [JStr ''Step 1: define X'', JStr '''']\<rparr>"]
  by (simp add: show_nat_small)

section \<open>Result combiner\<close>









lemma show_nat_two: "show_nat (Suc (Suc 0)) = ''2''"
  by code_simp









section \<open>Restart between two steps\<close>

lemma startPlan_eq:
  "startPlan e prompt plan s =
     (let s1 = s\<lparr>originalPrompt := prompt, planSteps := plan,
                 stepResults := replicate (length plan) (Some []), isProcessingPlan := True\<rparr>;
          msgs = messages s @ [\<lparr>role = ''assistant'', content = Acknowledgment (length plan) plan\<rparr>]
      in if save_ok e msgs
         then (Ok PlanStarted, schedule 0 ''executeTask'' ''PLAN_STEP:0'' (s1\<lparr>messages := msgs\<rparr>))
         else (Throw SaveError, s1))"
  by (simp add: startPlan_def saveMessages_def Let_def)

lemma executeTask_step0:
  "executeTask e ''PLAN_STEP:0'' s =
     (if 0 < length (planSteps s) \<and> truthy (planSteps s ! 0) then
        (case processStep e s (planSteps s ! 0) 0 of
           Throw err \<Rightarrow> (Throw err, s)
         | Ok stepResult \<Rightarrow>
             if 1 < length (planSteps s)
             then (Ok (), schedule 0 ''executeTask'' ''PLAN_STEP:1''
                            (s\<lparr>stepResults := array_set (stepResults s) 0 stepResult\<rparr>))
             else outputCombinedResult e (s\<lparr>stepResults := array_set (stepResults s) 0 stepResult\<rparr>))
      else (Ok (), s))"
  using executeTask_plan_step [of e 0 s]
  by (cases "processStep e s (planSteps s ! 0) 0") (simp_all add: show_nat_small)

lemma executeTask_step1:
  "executeTask e ''PLAN_STEP:1'' s =
     (if 1 < length (planSteps s) \<and> truthy (planSteps s ! 1) then
        (case processStep e s (planSteps s ! 1) 1 of
           Throw err \<Rightarrow> (Throw err, s)
         | Ok stepResult \<Rightarrow>
             if 2 < length (planSteps s)
             then (Ok (), schedule 0 ''executeTask'' ''PLAN_STEP:2''
                            (s\<lparr>stepResults := array_set (stepResults s) 1 stepResult\<rparr>))
             else outputCombinedResult e (s\<lparr>stepResults := array_set (stepResults s) 1 stepResult\<rparr>))
      else (Ok (), s))"
  using executeTask_plan_step [of e 1 s]
  by (cases "processStep e s (planSteps s ! 1) 1") (simp_all add: show_nat_small show_nat_two)

lemma executeTask_after_restart:
  "executeTask e (''PLAN_STEP:'' @ show_nat i) (restart s) = (Ok (), restart s)"
  using executeTask_plan_step [of e i "restart s"] by (simp add: restart_def)

text \<open>
  Claim C1, as the code has it. Let a plan of at least two steps be started and its
  continuation \<^verbatim>\<open>PLAN_STEP:0\<close> run to completion. Then the result of step 0 is stored, the
  one new continuation is \<^verbatim>\<open>PLAN_STEP:1\<close>, and running it on the same object processes
  step 1 only: its result goes to slot 1 and either \<^verbatim>\<open>PLAN_STEP:2\<close> is scheduled or, for a
  two-step plan, the combiner runs. A restart keeps the tables, the messages and the
  schedules but not the plan fields, and on the restarted object \<^verbatim>\<open>PLAN_STEP:1\<close> finds no
  step: it returns at once and changes nothing.
\<close>

theorem plan_state_is_lost_on_restart:
  assumes "2 \<le> length plan" and "truthy (plan ! 0)" and "truthy (plan ! 1)"
    and "startPlan e prompt plan s = (Ok PlanStarted, s1)"
    and "executeTask e ''PLAN_STEP:0'' s1 = (Ok (), s2)"
  shows "planSteps s2 = plan \<and> originalPrompt s2 = prompt \<and> isProcessingPlan s2
     \<and> (\<exists>r0. processStep e s1 (plan ! 0) 0 = Ok r0
              \<and> stepResults s2 = (replicate (length plan) (Some []))[0 := Some r0])
     \<and> schedules s2 = schedules s @ [(0, ''executeTask'', ''PLAN_STEP:0''),
                                        (0, ''executeTask'', ''PLAN_STEP:1'')]
     \<and> executeTask e ''PLAN_STEP:1'' s2 =
         (case processStep e s2 (plan ! 1) 1 of
            Throw err \<Rightarrow> (Throw err, s2)
          | Ok r1 \<Rightarrow>
              if 2 < length plan
              then (Ok (), schedule 0 ''executeTask'' ''PLAN_STEP:2''
                             (s2\<lparr>stepResults := (stepResults s2)[1 := Some r1]\<rparr>))
              else outputCombinedResult e (s2\<lparr>stepResults := (stepResults s2)[1 := Some r1]\<rparr>))
     \<and> store (restart s2) = store s2 \<and> messages (restart s2) = messages s2
     \<and> schedules (restart s2) = schedules s2
     \<and> planSteps (restart s2) = [] \<and> stepResults (restart s2) = []
     \<and> executeTask e ''PLAN_STEP:1'' (restart s2) = (Ok (), restart s2)"
proof -
  let ?msgs = "messages s @ [\<lparr>role = ''assistant'', content = Acknowledgment (length plan) plan\<rparr>]"
  have s1: "s1 = schedule 0 ''executeTask'' ''PLAN_STEP:0''
      (s\<lparr>originalPrompt := prompt, planSteps := plan,
         stepResults := replicate (length plan) (Some []), isProcessingPlan := True,
         messages := ?msgs\<rparr>)"
    using assms(4) by (simp add: startPlan_eq Let_def split: if_splits)
  have p1: "planSteps s1 = plan" "stepResults s1 = replicate (length plan) (Some [])"
    "originalPrompt s1 = prompt" "isProcessingPlan s1"
    "schedules s1 = schedules s @ [(0, ''executeTask'', ''PLAN_STEP:0'')]"
    by (simp_all add: s1 schedule_def)
  obtain r0 where r0: "processStep e s1 (plan ! 0) 0 = Ok r0"
    and s2: "s2 = schedule 0 ''executeTask'' ''PLAN_STEP:1''
                    (s1\<lparr>stepResults := array_set (stepResults s1) 0 r0\<rparr>)"
    using assms(1,2,5) p1(1)
    by (cases "processStep e s1 (plan ! 0) 0") (auto simp: executeTask_step0 split: if_splits)
  have p2: "planSteps s2 = plan" "originalPrompt s2 = prompt" "isProcessingPlan s2"
    "stepResults s2 = (replicate (length plan) (Some []))[0 := Some r0]"
    "schedules s2 = schedules s @ [(0, ''executeTask'', ''PLAN_STEP:0''),
                                        (0, ''executeTask'', ''PLAN_STEP:1'')]"
    using assms(1) by (auto simp: s2 p1 schedule_def array_set_def)
  have len: "1 < length (stepResults s2)" using assms(1) by (simp add: p2)
  have e1: "executeTask e ''PLAN_STEP:1'' s2 =
         (case processStep e s2 (plan ! 1) 1 of
            Throw err \<Rightarrow> (Throw err, s2)
          | Ok r1 \<Rightarrow>
              if 2 < length plan
              then (Ok (), schedule 0 ''executeTask'' ''PLAN_STEP:2''
                             (s2\<lparr>stepResults := (stepResults s2)[1 := Some r1]\<rparr>))
              else outputCombinedResult e (s2\<lparr>stepResults := (stepResults s2)[1 := Some r1]\<rparr>))"
    using assms(1,3) len by (simp add: executeTask_step1 p2(1) array_set_def split: outcome.splits)
  have r: "executeTask e ''PLAN_STEP:1'' (restart s2) = (Ok (), restart s2)"
    using executeTask_after_restart [of e 1 s2] by (simp add: show_nat_small)
  show ?thesis
    using p2 r0 e1 r by (simp add: restart_def)
qed

lemma started_chat_eq:
  "startPlan demo_env ''explain X'' demo_plan new_chat = (Ok PlanStarted, started_chat)"
  by (simp add: started_chat_def startPlan_eq Let_def demo_env_def)

lemma processStep_demo: "processStep demo_env s st i = Ok ''answer''"
  by (simp add: processStep_def demo_env_def responseText_def get_prop_def)

lemma started_chat_fields:
  "planSteps started_chat = demo_plan" "stepResults started_chat = [Some [], Some []]"
  by (simp_all add: started_chat_def startPlan_eq Let_def demo_env_def schedule_def demo_plan_def)

lemma after_step0_eq:
  "executeTask demo_env ''PLAN_STEP:0'' started_chat = (Ok (), after_step0)"
  by (simp add: after_step0_def executeTask_step0 processStep_demo started_chat_fields demo_plan_def)

theorem plan_state_is_lost_on_restart_witness:
  "length demo_plan = 2 \<and> truthy (demo_plan ! 0) \<and> truthy (demo_plan ! 1)
   \<and> startPlan demo_env ''explain X'' demo_plan new_chat = (Ok PlanStarted, started_chat)
   \<and> executeTask demo_env ''PLAN_STEP:0'' started_chat = (Ok (), after_step0)
   \<and> planSteps after_step0 = demo_plan \<and> isProcessingPlan after_step0
   \<and> stepResults after_step0 = [Some ''answer'', Some []]
   \<and> schedules after_step0 = [(0, ''executeTask'', ''PLAN_STEP:0''), (0, ''executeTask'', ''PLAN_STEP:1'')]
   \<and> executeTask demo_env ''PLAN_STEP:1'' after_step0
       = outputCombinedResult demo_env (after_step0\<lparr>stepResults := [Some ''answer'', Some ''answer'']\<rparr>)
   \<and> executeTask demo_env ''PLAN_STEP:1'' (restart after_step0) = (Ok (), restart after_step0)"
  using plan_state_is_lost_on_restart [of demo_plan demo_env "''explain X''" new_chat started_chat after_step0]
    started_chat_eq after_step0_eq
  by (simp add: demo_plan_def processStep_demo new_chat_def)

text \<open>
  The two-step plan after step 0, restarted: the continuation \<^verbatim>\<open>PLAN_STEP:1\<close> is pending,
  and running it leaves an object without plan and without results. Step 1 is never
  processed and no combined answer is written.
\<close>

theorem crash_resume_counterexample:
  "schedules after_step0 = [(0, ''executeTask'', ''PLAN_STEP:0''), (0, ''executeTask'', ''PLAN_STEP:1'')]
   \<and> stepResults after_step0 = [Some ''answer'', Some []]
   \<and> executeTask demo_env ''PLAN_STEP:1'' (restart after_step0) = (Ok (), restart after_step0)
   \<and> planSteps (restart after_step0) = []
   \<and> stepResults (restart after_step0) = []
   \<and> messages (restart after_step0) = messages after_step0"
proof -
  have a: "after_step0 = schedule 0 ''executeTask'' ''PLAN_STEP:1''
                    (started_chat\<lparr>stepResults := [Some ''answer'', Some []]\<rparr>)"
    by (simp add: after_step0_def executeTask_step0 processStep_demo started_chat_fields
        demo_plan_def array_set_def)
  have s: "schedules started_chat = [(0, ''executeTask'', ''PLAN_STEP:0'')]"
    by (simp add: started_chat_def startPlan_eq Let_def demo_env_def schedule_def new_chat_def)
  have r: "executeTask demo_env ''PLAN_STEP:1'' (restart after_step0) = (Ok (), restart after_step0)"
    by (simp add: executeTask_step1 restart_def)
  show ?thesis using r s by (simp add: a schedule_def restart_def)
qed

section \<open>Quiz statistics against their specification\<close>

lemma subject_filter_spec: "subject_filter subject ledger = spec_selected subject ledger"
  by (cases subject) (auto simp: subject_filter_def spec_selected_def intro: filter_cong)

lemma Math_round_avg: "Math_round (sql_avg xs) = spec_mean xs"
proof (cases "xs = []")
  case True
  then show ?thesis by (simp add: sql_avg_def spec_mean_def Math_round_zero)
next
  case False
  let ?n = "int (length xs)"
  have n: "0 < ?n" using False by simp
  have "(of_int (sum_list xs) :: rat) / of_nat (length xs) + 1 / 2
          = of_int (2 * sum_list xs + ?n) / of_int (2 * ?n)"
    using n by (simp add: field_simps)
  then have "Math_round (sql_avg xs) = \<lfloor>(of_int (2 * sum_list xs + ?n) :: rat) / of_int (2 * ?n)\<rfloor>"
    using False by (simp add: Math_round_def sql_avg_def)
  also have "\<dots> = (2 * sum_list xs + ?n) div (2 * ?n)"
    by (rule floor_divide_of_int_eq)
  finally show ?thesis using False by (simp add: spec_mean_def)
qed

lemma sql_max_spec: "sql_max xs = spec_best xs"
proof (cases xs)
  case Nil
  then show ?thesis by (simp add: sql_max_def spec_best_def)
next
  case (Cons a r)
  then show ?thesis
    using Max.set_eq_fold [of a r] by (simp add: sql_max_def spec_best_def)
qed

lemma sql_min_spec: "sql_min xs = spec_worst xs"
proof (cases xs)
  case Nil
  then show ?thesis by (simp add: sql_min_def spec_worst_def)
next
  case (Cons a r)
  then show ?thesis
    using Min.set_eq_fold [of a r] by (simp add: sql_min_def spec_worst_def)
qed

text \<open>
  The stable sort on the negated date is the list of the groups of equal date, latest
  group first, each group in the order of the table.
\<close>

lemma groups_mset:
  "distinct ds \<Longrightarrow>
     mset (concat (map (\<lambda>d. filter (\<lambda>r. h r = d) xs) ds)) = mset (filter (\<lambda>r. h r \<in> set ds) xs)"
proof (induction ds)
  case Nil
  then show ?case by simp
next
  case (Cons d ds)
  then have "d \<notin> set ds" by simp
  then have "mset (filter (\<lambda>r. h r = d) xs) + mset (filter (\<lambda>r. h r \<in> set ds) xs)
      = mset (filter (\<lambda>r. h r = d \<or> h r \<in> set ds) xs)"
    by (induction xs) auto
  then show ?case using Cons by simp
qed

lemma groups_filter:
  "distinct ds \<Longrightarrow>
     filter (\<lambda>x. h x = k) (concat (map (\<lambda>d. filter (\<lambda>r. h r = d) xs) ds))
       = (if k \<in> set ds then filter (\<lambda>x. h x = k) xs else [])"
proof (induction ds)
  case Nil
  then show ?case by simp
next
  case (Cons d ds)
  have a: "filter (\<lambda>x. h x = d \<and> h x = k) xs
      = (if k = d then filter (\<lambda>x. h x = k) xs else [])"
    by (induction xs) auto
  show ?case using Cons by (auto simp: a)
qed

lemma group_sorted: "sorted (map (\<lambda>r. - int (h r)) (filter (\<lambda>r. h r = d) xs))"
  by (induction xs) auto

lemma groups_sorted:
  "sorted (rev ds) \<Longrightarrow>
     sorted (map (\<lambda>r. - int (h r)) (concat (map (\<lambda>d. filter (\<lambda>r. h r = d) xs) ds)))"
proof (induction ds)
  case Nil
  then show ?case by simp
next
  case (Cons d ds)
  then have s: "sorted (rev ds)" and le: "\<forall>x \<in> set ds. x \<le> d"
    by (auto simp: sorted_append)
  show ?case
    using Cons.IH [OF s] le group_sorted [of h d xs] by (auto simp: sorted_append)
qed

lemma order_by_date_desc_newest_first: "order_by_date_desc rows = newest_first rows"
  unfolding order_by_date_desc_def
proof (rule properties_for_sort_key)
  let ?ds = "rev (sort (remdups (map quiz_date rows)))"
  have d: "distinct ?ds" by simp
  have s: "set ?ds = quiz_date ` set rows" by simp
  have all: "filter (\<lambda>r. quiz_date r \<in> set ?ds) rows = rows"
    unfolding s by (induction rows) auto
  show "mset (newest_first rows) = mset rows"
    using groups_mset [OF d, of quiz_date rows] all by (simp add: newest_first_def)
  show "sorted (map (\<lambda>r. - int (quiz_date r)) (newest_first rows))"
    unfolding newest_first_def by (rule groups_sorted) simp
  fix k
  assume "k \<in> set (newest_first rows)"
  then have "k \<in> set rows" by (auto simp: newest_first_def)
  then have k: "quiz_date k \<in> set ?ds" by simp
  have e: "(\<lambda>x. - int (quiz_date k) = - int (quiz_date x)) = (\<lambda>x. quiz_date x = quiz_date k)"
    by auto
  show "filter (\<lambda>x. - int (quiz_date k) = - int (quiz_date x)) (newest_first rows)
      = filter (\<lambda>x. - int (quiz_date k) = - int (quiz_date x)) rows"
    unfolding e newest_first_def using groups_filter [OF d, of quiz_date "quiz_date k" rows] k
    by simp
qed

lemma missed_rows_spec:
  "order_by_date_desc (filter P rows) = filter P (newest_first rows)"
proof -
  have "order_by_date_desc (filter P rows) = filter P (order_by_date_desc rows)"
    by (simp add: order_by_date_desc_def filter_sort)
  then show ?thesis by (simp add: order_by_date_desc_newest_first)
qed

text \<open>
  The counting object against the counts of the pool: as long as no label is inherited,
  the own properties are the labels in the order of their first appearance, each with
  the number of its occurrences.
\<close>

lemma first_seen_snoc:
  "first_seen (pre @ [c]) = (if c \<in> set pre then first_seen pre else first_seen pre @ [c])"
  by (simp add: first_seen_def)

lemma first_seen_distinct: "distinct (first_seen cs)" and first_seen_set: "set (first_seen cs) = set cs"
  by (simp_all add: first_seen_def)

lemma bump_present:
  assumes "distinct ks" and "c \<in> set ks"
  shows "bump c (map (\<lambda>k. (k, Count (g k))) ks)
     = map (\<lambda>k. (k, Count (if k = c then g k + 1 else g k))) ks"
  using assms by (induction ks) auto

lemma bump_absent:
  assumes "c \<notin> set ks" and "c \<notin> set Object_prototype_names"
  shows "bump c (map (\<lambda>k. (k, Count (g k))) ks) = map (\<lambda>k. (k, Count (g k))) ks @ [(c, Count 1)]"
proof -
  have "c \<noteq> ''__proto__''" using assms(2) by (auto simp: Object_prototype_names_def)
  then show ?thesis using assms by (induction ks) auto
qed

lemma count_list_snoc: "count_list (pre @ [c]) k = count_list pre k + (if k = c then 1 else 0)"
  by (induction pre) auto

lemma bump_counts:
  assumes "c \<notin> set Object_prototype_names"
  shows "bump c (map (\<lambda>k. (k, Count (count_list pre k))) (first_seen pre))
     = map (\<lambda>k. (k, Count (count_list (pre @ [c]) k))) (first_seen (pre @ [c]))"
proof (cases "c \<in> set pre")
  case True
  then show ?thesis
    using bump_present [of "first_seen pre" c "count_list pre"]
    by (simp add: first_seen_distinct first_seen_set first_seen_snoc count_list_snoc)
next
  case False
  then have "count_list pre c = 0" by (simp add: count_list_0_iff)
  moreover have "map (\<lambda>k. (k, Count (count_list (pre @ [c]) k))) (first_seen pre)
      = map (\<lambda>k. (k, Count (count_list pre k))) (first_seen pre)"
    using False by (auto simp: count_list_snoc first_seen_set)
  ultimately show ?thesis
    using False bump_absent [OF _ assms, of "first_seen pre" "count_list pre"]
    by (simp add: first_seen_set first_seen_snoc count_list_snoc)
qed

lemma fold_bump_counts:
  assumes "\<forall>c \<in> set cs. c \<notin> set Object_prototype_names"
  shows "fold bump cs (map (\<lambda>k. (k, Count (count_list pre k))) (first_seen pre))
     = map (\<lambda>k. (k, Count (count_list (pre @ cs) k))) (first_seen (pre @ cs))"
  using assms
proof (induction cs arbitrary: pre)
  case Nil
  then show ?case by simp
next
  case (Cons c cs)
  then show ?case using Cons.IH [of "pre @ [c]"] by (simp add: bump_counts)
qed

lemma fold_concat_rows: "fold (\<lambda>r. fold f (g r)) rows acc = fold f (concat (map g rows)) acc"
  by (induction rows arbitrary: acc) simp_all

lemma conceptCounts_count_list:
  assumes "\<forall>c \<in> set (concat (map (\<lambda>r. or_else (missed_concepts r) []) rows)).
             c \<notin> set Object_prototype_names"
  shows "conceptCounts rows =
     map (\<lambda>k. (k, Count (count_list (concat (map (\<lambda>r. or_else (missed_concepts r) []) rows)) k)))
         (first_seen (concat (map (\<lambda>r. or_else (missed_concepts r) []) rows)))"
proof -
  have r: "count_row = (\<lambda>r. fold bump (or_else (missed_concepts r) []))"
    by (auto simp: count_row_def or_else_def fun_eq_iff split: option.splits)
  have "conceptCounts rows = fold bump (concat (map (\<lambda>r. or_else (missed_concepts r) []) rows)) []"
    by (simp add: conceptCounts_def r fold_concat_rows)
  then show ?thesis
    using fold_bump_counts [OF assms, of "[]"] by (simp add: first_seen_def)
qed

lemma insort_key_map:
  "insort_key f (h x) (map h ys) = map h (insort_key (\<lambda>a. f (h a)) x ys)"
  by (induction ys) auto

lemma sort_key_map: "sort_key f (map h xs) = map h (sort_key (\<lambda>a. f (h a)) xs)"
  by (induction xs) (simp_all add: insort_key_map)

lemma Object_entries_labels:
  "Object_entries (map (\<lambda>k. (k, g k)) ks) = map (\<lambda>k. (k, g k)) (label_order ks)"
  by (simp add: Object_entries_def label_order_def filter_map sort_key_map comp_def)

lemma counts_only_counts:
  "counts_only (map (\<lambda>k. (k, Count (n k))) ks) = Some (map (\<lambda>k. (k, n k)) ks)"
  by (induction ks) simp_all

lemma sortedConcepts_spec:
  "sortedConcepts sort_impl (map (\<lambda>k. (k, Count (count_list pool k))) (first_seen pool))
     = spec_most_missed pool"
  by (simp add: sortedConcepts_def spec_most_missed_def Object_entries_labels counts_only_counts
      sort_key_map take_map comp_def)

lemma own_labels_pool:
  assumes "own_labels ledger" and "set rows \<subseteq> set ledger"
  shows "\<forall>c \<in> set (concat (map (\<lambda>r. or_else (missed_concepts r) []) rows)).
           c \<notin> set Object_prototype_names"
  using assms by (auto simp: own_labels_def list_all_iff)

lemma getQuizStats_refines:
  assumes "own_labels (quiz_history s)"
  shows "getQuizStats sort_impl subject s = spec_stats subject (quiz_history s)"
proof -
  let ?rows = "spec_selected subject (quiz_history s)"
  let ?missed = "take 10 (filter (\<lambda>r. missed_concepts r \<noteq> None) (newest_first ?rows))"
  have "set ?missed \<subseteq> set (newest_first ?rows)"
    by (meson filter_is_subset set_take_subset subset_trans)
  also have "\<dots> \<subseteq> set ?rows" by (auto simp: newest_first_def)
  also have "\<dots> \<subseteq> set (quiz_history s)" by (auto simp: spec_selected_def)
  finally have sub: "set ?missed \<subseteq> set (quiz_history s)" .
  have c: "conceptCounts ?missed =
     map (\<lambda>k. (k, Count (count_list (spec_missed_pool ?rows) k)))
         (first_seen (spec_missed_pool ?rows))"
    using conceptCounts_count_list [OF own_labels_pool [OF assms sub]]
    by (simp add: spec_missed_pool_def)
  have o: "order_by_date_desc ?rows = newest_first ?rows"
    by (rule order_by_date_desc_newest_first)
  have m: "order_by_date_desc (filter (\<lambda>r. missed_concepts r \<noteq> None) ?rows)
      = filter (\<lambda>r. missed_concepts r \<noteq> None) (newest_first ?rows)"
    by (rule missed_rows_spec)
  show ?thesis
    by (simp add: getQuizStats_def spec_stats_def Let_def subject_filter_spec o m Math_round_avg
        sql_max_spec sql_min_spec c sortedConcepts_spec del: not_None_eq)
qed







text \<open>
  Seven quizzes recorded within one second, with the scores 10 to 70 in this order: the
  recent scores are those of the five recorded first, not of the five recorded last.
\<close>

lemma getQuizStats_same_second:
  "map score (quiz_history same_second_db) = [10, 20, 30, 40, 50, 60, 70]
   \<and> recentScores (getQuizStats sort_impl None same_second_db) = [10, 20, 30, 40, 50]"
proof -
  have "own_labels (quiz_history same_second_db)" by code_simp
  then have "getQuizStats sort_impl None same_second_db
      = spec_stats None (quiz_history same_second_db)"
    by (rule getQuizStats_refines)
  moreover have "recentScores (spec_stats None (quiz_history same_second_db)) = [10, 20, 30, 40, 50]"
    by code_simp
  moreover have "map score (quiz_history same_second_db) = [10, 20, 30, 40, 50, 60, 70]"
    by code_simp
  ultimately show ?thesis by simp
qed

text \<open>
  Labels that \<^verbatim>\<open>Object.prototype\<close> knows: \<^verbatim>\<open>__proto__\<close> is never counted, and \<^verbatim>\<open>constructor\<close>
  is counted with a string, after which the order is the implementation's.
\<close>

lemma getQuizStats_inherited_labels:
  "mostMissedConcepts (getQuizStats sort_impl None inherited_db)
     = map fst (take 5 (sort_impl [(''constructor'', Text), (''sets'', Count 2)]))"
proof -
  have "conceptCounts (take 10 (order_by_date_desc
          (filter (\<lambda>r. missed_concepts r \<noteq> None) (quiz_history inherited_db))))
      = [(''constructor'', Text), (''sets'', Count 2)]"
    by code_simp
  moreover have "Object_entries [(''constructor'', Text), (''sets'', Count 2)]
      = [(''constructor'', Text), (''sets'', Count 2)]"
    by code_simp
  ultimately show ?thesis
    by (simp add: getQuizStats_def Let_def subject_filter_def sortedConcepts_def)
qed

end
